theory Spec2Isabelle
  imports Main
begin

section \<open>The exercise tracker of \<^verbatim>\<open>src/server.js\<close>\<close>

text \<open>
  The server is four route handlers over one collection of users, each user
  owning a list of exercises, and one error-formatting middleware. The
  handlers are modelled as functions over the collection (a list of users in
  storage order), returning the collection after the request together with
  what the handler did: it either answered (\<open>res.status(c).json(v)\<close>, the
  value \<open>Inr\<close>) or forwarded an error (\<open>next(err)\<close>, the value \<open>Inl\<close>).

  What the platform supplies and the source only calls is a parameter: the
  \<open>Date\<close> constructor on a string, \<open>toDateString\<close>, and the texts of the
  errors the engine and the document mapper raise (record \<open>runtime\<close>); the
  clock (\<open>new Date()\<close>) and the identifier generator (\<open>shortid.generate\<close>) give
  a different value at every request, so each request carries the value it got.

  The error middleware is a function of the error it is given; which
  errors the framework hands to it is not modelled.

  Boundaries of the model. Request fields are strings: \<open>username\<close> and
  \<open>description\<close> are given, the query parameters and the body's \<open>date\<close> are
  strings or absent, \<open>duration\<close> is the number the schema's cast gives (a type
  parameter: the handlers carry it and never compute with it). Strings are
  ASCII. The store answers every call (no connection failure); an update by
  identifier is one atomic step, as \<open>findByIdAndUpdate\<close> is, and runs no
  validator: it stores the exercise as the document mapper built it, with
  no date when the date given was not a valid one.
\<close>

subsection \<open>JavaScript values\<close>

text \<open>A \<open>Date\<close> object holds a time value in milliseconds since the epoch, or NaN.\<close>

datatype jsdate = Time int | InvalidDate

text \<open>\<open>a < b\<close> on two dates compares the time values; with NaN on a side it is false.\<close>

fun date_lt :: "jsdate \<Rightarrow> jsdate \<Rightarrow> bool" where
  "date_lt (Time a) (Time b) = (a < b)"
| "date_lt _ _ = False"

text \<open>
  The result of \<open>parseInt\<close>: an integer or NaN. (A digit string too long for
  a double is rounded by the engine; such a value is far above any array
  length, and only its sign and its order against a length are used.)
\<close>

datatype jsnum = Num int | NaN

definition truthy_num :: "jsnum \<Rightarrow> bool" where
  "truthy_num n = (case n of Num k \<Rightarrow> k \<noteq> 0 | NaN \<Rightarrow> False)"

definition num_lt_nat :: "jsnum \<Rightarrow> nat \<Rightarrow> bool" where
  "num_lt_nat n len = (case n of Num k \<Rightarrow> k < int len | NaN \<Rightarrow> False)"

text \<open>
  A request field that is absent reads \<open>undefined\<close>; \<open>x ? f(x) : d\<close> takes the
  second branch for \<open>undefined\<close> and for the empty string.
\<close>

definition ifTruthy :: "string option \<Rightarrow> (string \<Rightarrow> 'a) \<Rightarrow> 'a \<Rightarrow> 'a" where
  "ifTruthy x f d = (case x of None \<Rightarrow> d | Some v \<Rightarrow> if v \<noteq> [] then f v else d)"

subsection \<open>\<open>parseInt\<close> with no radix argument\<close>

definition isWhiteSpace :: "char \<Rightarrow> bool" where
  "isWhiteSpace c = (let n = (of_char c :: nat) in n = 32 \<or> (9 \<le> n \<and> n \<le> 13))"

definition digitValue :: "char \<Rightarrow> nat option" where
  "digitValue c =
     (let n = (of_char c :: nat) in
      if 48 \<le> n \<and> n \<le> 57 then Some (n - 48)
      else if 97 \<le> n \<and> n \<le> 122 then Some (n - 87)
      else if 65 \<le> n \<and> n \<le> 90 then Some (n - 55)
      else None)"

definition isRadixDigit :: "nat \<Rightarrow> char \<Rightarrow> bool" where
  "isRadixDigit r c = (case digitValue c of None \<Rightarrow> False | Some v \<Rightarrow> v < r)"

definition digitsValue :: "nat \<Rightarrow> string \<Rightarrow> int" where
  "digitsValue r ds =
     foldl (\<lambda>acc c. acc * int r + (case digitValue c of None \<Rightarrow> 0 | Some v \<Rightarrow> int v)) 0 ds"

text \<open>
  Leading white space is skipped, then a sign, then \<open>0x\<close> or \<open>0X\<close> selects
  radix 16; the longest run of digits of the radix is read, and no digit
  gives NaN.
\<close>

definition parseInt :: "string \<Rightarrow> jsnum" where
  "parseInt s =
     (let s1 = dropWhile isWhiteSpace s;
          sign = (case s1 of c # _ \<Rightarrow> if c = CHR ''-'' then (-1::int) else 1 | [] \<Rightarrow> 1);
          s2 = (case s1 of c # r \<Rightarrow> if c = CHR ''-'' \<or> c = CHR ''+'' then r else s1 | [] \<Rightarrow> s1);
          radix = (case s2 of a # b # _ \<Rightarrow>
                     if a = CHR ''0'' \<and> (b = CHR ''x'' \<or> b = CHR ''X'') then 16 else 10
                   | _ \<Rightarrow> (10::nat));
          s3 = (if radix = 16 then drop 2 s2 else s2);
          ds = takeWhile (isRadixDigit radix) s3
      in if ds = [] then NaN else Num (sign * digitsValue radix ds))"

subsection \<open>JSON answers\<close>

text \<open>
  \<open>res.json\<close> sends the object it is given; a key whose value is
  \<open>undefined\<close> is left out of the text sent. An object is the list of its
  keys and values in the order the source writes them.
\<close>

datatype 'n json =
    JStr string
  | JNum 'n
  | JNat nat
  | JArr "'n json list"
  | JObj "(string \<times> 'n json) list"

fun present :: "(string \<times> 'n json option) list \<Rightarrow> (string \<times> 'n json) list" where
  "present [] = []"
| "present ((k, None) # kvs) = present kvs"
| "present ((k, Some v) # kvs) = (k, v) # present kvs"

definition json_object :: "(string \<times> 'n json option) list \<Rightarrow> 'n json" where
  "json_object kvs = JObj (present kvs)"

record 'n response =
  code :: nat
  json :: "'n json"

subsection \<open>Errors\<close>

text \<open>
  The error middleware looks at three properties of what it is given:
  \<open>errors\<close> (the validation failures by path, in the order \<open>Object.keys\<close>
  lists them, each with its message), \<open>status\<close> and \<open>message\<close>.
\<close>

datatype error_class = TypeError | RangeError | ValidationError | MongoError | PlainObject

record js_error =
  cls :: error_class
  errors :: "(string \<times> string) list option"
  status :: "nat option"
  message :: "string option"

record runtime =
  newDate :: "string \<Rightarrow> jsdate"
  toDateString :: "jsdate \<Rightarrow> string"
  nullPropertyText :: "string \<Rightarrow> string"
  undefinedPropertyText :: "string \<Rightarrow> string"
  invalidLengthText :: string
  requiredText :: "string \<Rightarrow> string"
  validationText :: "string \<Rightarrow> string"
  duplicateKeyText :: "string \<Rightarrow> string"

definition thrown :: "error_class \<Rightarrow> string \<Rightarrow> js_error" where
  "thrown c m = \<lparr>cls = c, errors = None, status = None, message = Some m\<rparr>"

text \<open>Reading property \<open>p\<close> of \<open>null\<close>.\<close>

definition nullProperty :: "runtime \<Rightarrow> string \<Rightarrow> js_error" where
  "nullProperty rt p = thrown TypeError (nullPropertyText rt p)"

text \<open>Setting the \<open>length\<close> of an array to a negative number.\<close>

definition invalidLength :: "runtime \<Rightarrow> js_error" where
  "invalidLength rt = thrown RangeError (invalidLengthText rt)"

text \<open>Reading property \<open>p\<close> of \<open>undefined\<close>.\<close>

definition undefinedProperty :: "runtime \<Rightarrow> string \<Rightarrow> js_error" where
  "undefinedProperty rt p = thrown TypeError (undefinedPropertyText rt p)"

text \<open>The document mapper's error for a required path that is missing or empty.\<close>

definition requiredError :: "runtime \<Rightarrow> string \<Rightarrow> js_error" where
  "requiredError rt path =
     \<lparr>cls = ValidationError, errors = Some [(path, requiredText rt path)],
      status = None, message = Some (validationText rt path)\<rparr>"

subsection \<open>The data model (source lines 34 to 55)\<close>

record 'n exercise =
  e_id :: string
  description :: string
  duration :: 'n
  date :: "int option"

text \<open>
  The \<open>date\<close> of an exercise document is the time value of a valid date, or
  the document has no date: the schema's cast, applied when the document is
  built, does not set the field from an invalid \<open>Date\<close>.
\<close>

definition castDate :: "jsdate \<Rightarrow> int option" where
  "castDate d = (case d of Time t \<Rightarrow> Some t | InvalidDate \<Rightarrow> None)"

text \<open>\<open>count\<close> starts at 0 and is only ever incremented, so it is a natural number.\<close>

record 'n user =
  u_id :: string
  name :: string
  count :: nat
  exercises :: "'n exercise list"

type_synonym 'n db = "'n user list"

subsection \<open>The store\<close>

text \<open>\<open>User.findOne({ name: n })\<close> and \<open>User.findById(i)\<close>: the first match, or \<open>null\<close>.\<close>

definition findOne :: "'n db \<Rightarrow> string \<Rightarrow> 'n user option" where
  "findOne db n = find (\<lambda>u. name u = n) db"

definition findById :: "'n db \<Rightarrow> string \<Rightarrow> 'n user option" where
  "findById db i = find (\<lambda>u. u_id u = i) db"

text \<open>
  \<open>doc.save()\<close> of a new user. The schema's \<open>required\<close> rejects an empty
  name, and the collection's index on \<open>_id\<close> rejects an identifier already
  stored; otherwise the document is appended.
\<close>

definition save :: "runtime \<Rightarrow> 'n db \<Rightarrow> 'n user \<Rightarrow> js_error + 'n db" where
  "save rt db u =
     (if name u = [] then Inl (requiredError rt ''name'')
      else if findById db (u_id u) \<noteq> None then Inl (thrown MongoError (duplicateKeyText rt (u_id u)))
      else Inr (db @ [u]))"

text \<open>
  \<open>User.findByIdAndUpdate(i, { $push: { exercises: ex }, $inc: { count: 1 } },
  { new: true })\<close>: the first user with the identifier gets the exercise
  appended and its count incremented in one step, and the updated document
  is returned; with no such user nothing is written and \<open>null\<close> is returned.
\<close>

definition pushAndInc :: "'n exercise \<Rightarrow> 'n user \<Rightarrow> 'n user" where
  "pushAndInc ex u = u\<lparr>exercises := exercises u @ [ex], count := count u + 1\<rparr>"

fun updateFirst :: "string \<Rightarrow> 'n exercise \<Rightarrow> 'n db \<Rightarrow> 'n db" where
  "updateFirst i ex [] = []"
| "updateFirst i ex (u # us) =
     (if u_id u = i then pushAndInc ex u # us else u # updateFirst i ex us)"

definition findByIdAndUpdate :: "'n db \<Rightarrow> string \<Rightarrow> 'n exercise \<Rightarrow> 'n db \<times> 'n user option" where
  "findByIdAndUpdate db i ex =
     (case findById db i of
        None \<Rightarrow> (db, None)
      | Some u \<Rightarrow> (updateFirst i ex db, Some (pushAndInc ex u)))"

subsection \<open>The error middleware (source lines 64 to 82)\<close>

record text_response =
  errCode :: nat
  ctype :: string
  errMessage :: string

text \<open>
  With \<open>errors\<close> on the error the answer is 400 and the message of the first
  key; an \<open>errors\<close> object with no key makes \<open>err.errors[keys[0]]\<close>
  \<open>undefined\<close>, and reading its \<open>message\<close> throws. Otherwise \<open>||\<close> picks
  the status and the message unless they are falsy (0, the empty string,
  \<open>undefined\<close>).
\<close>

definition errorMiddleware :: "runtime \<Rightarrow> js_error \<Rightarrow> js_error + text_response" where
  "errorMiddleware rt err =
     (case errors err of
        Some es \<Rightarrow>
          (case es of
             [] \<Rightarrow> Inl (thrown TypeError (undefinedPropertyText rt ''message''))
           | (k, m) # _ \<Rightarrow> Inr \<lparr>errCode = 400, ctype = ''txt'', errMessage = m\<rparr>)
      | None \<Rightarrow>
          Inr \<lparr>errCode = (case status err of None \<Rightarrow> 500 | Some c \<Rightarrow> if c \<noteq> 0 then c else 500),
               ctype = ''txt'',
               errMessage = (case message err of
                               None \<Rightarrow> ''Internal Server Error''
                             | Some m \<Rightarrow> if m \<noteq> [] then m else ''Internal Server Error'')\<rparr>)"

subsection \<open>Create user (source lines 87 to 105)\<close>

definition newUser :: "string \<Rightarrow> string \<Rightarrow> 'n user" where
  "newUser fresh username = \<lparr>u_id = fresh, name = username, count = 0, exercises = []\<rparr>"

definition createUserHandler ::
  "runtime \<Rightarrow> string \<Rightarrow> string \<Rightarrow> 'n db \<Rightarrow> 'n db \<times> (js_error + 'n response)" where
  "createUserHandler rt fresh username db =
     (case findOne db username of
        Some user \<Rightarrow>
          (db, Inr \<lparr>code = 200,
                    json = json_object [(''_id'', Some (JStr (u_id user))),
                                        (''username'', Some (JStr (name user))),
                                        (''count'', Some (JNat (count user)))]\<rparr>)
      | None \<Rightarrow>
          (case save rt db (newUser fresh username) of
             Inl err \<Rightarrow> (db, Inl err)
           | Inr db' \<Rightarrow>
               (db', Inr \<lparr>code = 201,
                          json = json_object [(''username'', Some (JStr username)),
                                              (''_id'', Some (JStr fresh))]\<rparr>)))"

subsection \<open>Add exercise (source lines 110 to 136)\<close>

record 'n exercise_body =
  b_description :: string
  b_duration :: 'n
  b_date :: "string option"

text \<open>
  \<open>now\<close> is the time value of \<open>new Date()\<close> at the call, \<open>fresh\<close> the
  generated identifier. The update is written before the answer is built;
  building it reads \<open>user.name\<close> first and \<open>exercise.date.toDateString()\<close>
  last, and either can throw.
\<close>

definition newExercise :: "runtime \<Rightarrow> int \<Rightarrow> string \<Rightarrow> 'n exercise_body \<Rightarrow> 'n exercise" where
  "newExercise rt now fresh b =
     \<lparr>e_id = fresh, description = b_description b, duration = b_duration b,
      date = castDate (ifTruthy (b_date b) (newDate rt) (Time now))\<rparr>"

definition addExerciseHandler ::
  "runtime \<Rightarrow> int \<Rightarrow> string \<Rightarrow> string \<Rightarrow> 'n exercise_body \<Rightarrow> 'n db
     \<Rightarrow> 'n db \<times> (js_error + 'n response)" where
  "addExerciseHandler rt now fresh i b db =
     (let exercise = newExercise rt now fresh b in
      case findByIdAndUpdate db i exercise of
        (db', None) \<Rightarrow> (db', Inl (nullProperty rt ''name''))
      | (db', Some user) \<Rightarrow>
          (case date exercise of
             None \<Rightarrow> (db', Inl (undefinedProperty rt ''toDateString''))
           | Some t \<Rightarrow>
               (db', Inr \<lparr>code = 201,
                          json = json_object
                            [(''username'', Some (JStr (name user))),
                             (''description'', Some (JStr (description exercise))),
                             (''duration'', Some (JNum (duration exercise))),
                             (''_id'', Some (JStr (u_id user))),
                             (''date'', Some (JStr (toDateString rt (Time t))))]\<rparr>)))"

subsection \<open>Exercise log (source lines 141 to 187)\<close>

record query =
  qfrom :: "string option"
  qto :: "string option"
  qlimit :: "string option"

text \<open>\<open>query.from ? new Date(query.from) : null\<close>, and the same for \<open>to\<close> and \<open>limit\<close>.\<close>

definition dateParam :: "runtime \<Rightarrow> string option \<Rightarrow> jsdate option" where
  "dateParam rt s = ifTruthy s (\<lambda>v. Some (newDate rt v)) None"

definition limitParam :: "string option \<Rightarrow> jsnum option" where
  "limitParam s = ifTruthy s (\<lambda>v. Some (parseInt v)) None"

text \<open>An entry of the log: description, duration and the day string.\<close>

type_synonym 'n entry = "string \<times> 'n \<times> string"

text \<open>The callback of \<open>map\<close>; \<open>ex.date.toDateString()\<close> throws for an exercise with no date.\<close>

definition entryOf :: "runtime \<Rightarrow> 'n exercise \<Rightarrow> 'n entry option" where
  "entryOf rt ex =
     (case date ex of
        None \<Rightarrow> None
      | Some t \<Rightarrow> Some (description ex, duration ex, toDateString rt (Time t)))"

fun formatLog :: "runtime \<Rightarrow> 'n exercise list \<Rightarrow> js_error + 'n entry list" where
  "formatLog rt [] = Inr []"
| "formatLog rt (ex # exs) =
     (case entryOf rt ex of
        None \<Rightarrow> Inl (undefinedProperty rt ''toDateString'')
      | Some e \<Rightarrow>
          (case formatLog rt exs of Inl err \<Rightarrow> Inl err | Inr es \<Rightarrow> Inr (e # es)))"

text \<open>
  The filter's callback: the day string is read back as a date; an entry
  before \<open>from\<close> or after \<open>to\<close> is dropped.
\<close>

definition keepEntry :: "runtime \<Rightarrow> jsdate option \<Rightarrow> jsdate option \<Rightarrow> 'n entry \<Rightarrow> bool" where
  "keepEntry rt from' to' ex =
     (let exDate = newDate rt (snd (snd ex)) in
      if (case from' of None \<Rightarrow> False | Some f \<Rightarrow> date_lt exDate f) then False
      else if (case to' of None \<Rightarrow> False | Some t \<Rightarrow> date_lt t exDate) then False
      else True)"

definition filterLog :: "runtime \<Rightarrow> jsdate option \<Rightarrow> jsdate option \<Rightarrow> 'n entry list \<Rightarrow> 'n entry list" where
  "filterLog rt from' to' log =
     (if from' \<noteq> None \<or> to' \<noteq> None then filter (keepEntry rt from' to') log else log)"

text \<open>
  \<open>if (limit && limit < log.length) log.length = limit\<close>: setting the length
  to a smaller natural number keeps that many leading entries; setting it
  to a negative number throws.
\<close>

definition limitLog :: "runtime \<Rightarrow> jsnum option \<Rightarrow> 'n entry list \<Rightarrow> js_error + 'n entry list" where
  "limitLog rt limit log =
     (case limit of
        None \<Rightarrow> Inr log
      | Some l \<Rightarrow>
          if truthy_num l \<and> num_lt_nat l (length log) then
            (case l of
               Num k \<Rightarrow> if k < 0 then Inl (invalidLength rt) else Inr (take (nat k) log)
             | NaN \<Rightarrow> Inr log)
          else Inr log)"

definition entryJson :: "'n entry \<Rightarrow> 'n json" where
  "entryJson ex =
     json_object [(''description'', Some (JStr (fst ex))),
                  (''duration'', Some (JNum (fst (snd ex)))),
                  (''date'', Some (JStr (snd (snd ex))))]"

definition logResponse :: "'n user \<Rightarrow> 'n entry list option \<Rightarrow> 'n response" where
  "logResponse u log =
     \<lparr>code = 200,
      json = json_object [(''_id'', Some (JStr (u_id u))),
                          (''username'', Some (JStr (name u))),
                          (''count'', Some (JNat (length (exercises u)))),
                          (''log'', map_option (\<lambda>l. JArr (map entryJson l)) log)]\<rparr>"

definition getUserHandler :: "runtime \<Rightarrow> query \<Rightarrow> string \<Rightarrow> 'n db \<Rightarrow> js_error + 'n response" where
  "getUserHandler rt q i db =
     (let from' = dateParam rt (qfrom q);
          to' = dateParam rt (qto q);
          limit = limitParam (qlimit q)
      in case findById db i of
           None \<Rightarrow> Inl (nullProperty rt ''toObject'')
         | Some user \<Rightarrow>
             if exercises user \<noteq> [] then
               (case formatLog rt (exercises user) of
                  Inl err \<Rightarrow> Inl err
                | Inr log0 \<Rightarrow>
                    (case limitLog rt limit (filterLog rt from' to' log0) of
                       Inl err \<Rightarrow> Inl err
                     | Inr log \<Rightarrow> Inr (logResponse user (Some log))))
             else Inr (logResponse user None))"

subsection \<open>List users (source lines 192 to 202)\<close>

definition getAllUsersHandlers :: "'n db \<Rightarrow> js_error + 'n response" where
  "getAllUsersHandlers db =
     (let users = map (\<lambda>u. (u_id u, name u)) db in
      Inr \<lparr>code = 200,
           json = JArr (map (\<lambda>user. json_object [(''_id'', Some (JStr (fst user))),
                                                  (''username'', Some (JStr (snd user)))]) users)\<rparr>)"

subsection \<open>A runtime in the UTC zone\<close>

text \<open>
  The theorems below hold for every runtime. To run the handlers on
  concrete requests, here is one: an engine whose clock zone is UTC. Its
  \<open>Date\<close> constructor reads the two forms the handlers meet, an ISO day
  \<open>YYYY-MM-DD\<close> (midnight UTC) and a day string as \<open>toDateString\<close> writes it
  (local midnight, here UTC as well); every other string it reads as an
  invalid date, which a real engine need not do. The error texts are those
  of V8 and of the document mapper.
\<close>

definition daysFromCivil :: "int \<Rightarrow> int \<Rightarrow> int \<Rightarrow> int" where
  "daysFromCivil y m d =
     (let y' = (if m \<le> 2 then y - 1 else y);
          era = y' div 400;
          yoe = y' - era * 400;
          doy = (153 * (if m > 2 then m - 3 else m + 9) + 2) div 5 + d - 1;
          doe = yoe * 365 + yoe div 4 - yoe div 100 + doy
      in era * 146097 + doe - 719468)"

definition civilFromDays :: "int \<Rightarrow> int \<times> int \<times> int" where
  "civilFromDays z0 =
     (let z = z0 + 719468;
          era = z div 146097;
          doe = z - era * 146097;
          yoe = (doe - doe div 1460 + doe div 36524 - doe div 146096) div 365;
          doy = doe - (365 * yoe + yoe div 4 - yoe div 100);
          mp = (5 * doy + 2) div 153;
          d = doy - (153 * mp + 2) div 5 + 1;
          m = (if mp < 10 then mp + 3 else mp - 9);
          y = yoe + era * 400 + (if m \<le> 2 then 1 else 0)
      in (y, m, d))"

definition isLeap :: "int \<Rightarrow> bool" where
  "isLeap y = (if y mod 100 = 0 then y mod 400 = 0 else y mod 4 = 0)"

definition daysInMonth :: "int \<Rightarrow> int \<Rightarrow> int" where
  "daysInMonth y m =
     (if m = 2 then (if isLeap y then 29 else 28)
      else if m = 4 \<or> m = 6 \<or> m = 9 \<or> m = 11 then 30 else 31)"

definition dayNames :: "string list" where
  "dayNames = [''Sun'', ''Mon'', ''Tue'', ''Wed'', ''Thu'', ''Fri'', ''Sat'']"

definition monthNames :: "string list" where
  "monthNames = [''Jan'', ''Feb'', ''Mar'', ''Apr'', ''May'', ''Jun'',
                 ''Jul'', ''Aug'', ''Sep'', ''Oct'', ''Nov'', ''Dec'']"

fun decimal :: "nat \<Rightarrow> string" where
  "decimal n =
     (if n < 10 then [''0123456789'' ! n]
      else decimal (n div 10) @ [''0123456789'' ! (n mod 10)])"

definition padZero :: "nat \<Rightarrow> string \<Rightarrow> string" where
  "padZero k s = replicate (k - length s) (CHR ''0'') @ s"

definition utcToDateString :: "jsdate \<Rightarrow> string" where
  "utcToDateString d =
     (case d of
        InvalidDate \<Rightarrow> ''Invalid Date''
      | Time t \<Rightarrow>
          (let z = t div 86400000 in
           case civilFromDays z of
             (y, m, dd) \<Rightarrow>
               dayNames ! nat ((z + 4) mod 7) @ '' '' @ monthNames ! nat (m - 1) @ '' ''
               @ padZero 2 (decimal (nat dd)) @ '' ''
               @ (if y < 0 then ''-'' else []) @ padZero 4 (decimal (nat \<bar>y\<bar>))))"

definition readNat :: "string \<Rightarrow> int option" where
  "readNat s =
     (if s \<noteq> [] \<and> list_all (isRadixDigit 10) s then Some (digitsValue 10 s) else None)"

fun indexOf :: "'a \<Rightarrow> 'a list \<Rightarrow> int option" where
  "indexOf x [] = None"
| "indexOf x (y # ys) = (if x = y then Some 0 else map_option (\<lambda>i. i + 1) (indexOf x ys))"

definition civilDate :: "int option \<Rightarrow> int option \<Rightarrow> int option \<Rightarrow> jsdate option" where
  "civilDate y m d =
     (case (y, m, d) of
        (Some yv, Some mv, Some dv) \<Rightarrow>
          if 1 \<le> mv \<and> mv \<le> 12 \<and> 1 \<le> dv \<and> dv \<le> daysInMonth yv mv
          then Some (Time (daysFromCivil yv mv dv * 86400000))
          else None
      | _ \<Rightarrow> None)"

definition parseIsoDay :: "string \<Rightarrow> jsdate option" where
  "parseIsoDay s =
     (if length s = 10 \<and> s ! 4 = CHR ''-'' \<and> s ! 7 = CHR ''-''
      then civilDate (readNat (take 4 s)) (readNat (take 2 (drop 5 s))) (readNat (drop 8 s))
      else None)"

definition parseDayString :: "string \<Rightarrow> jsdate option" where
  "parseDayString s =
     (if length s = 15 \<and> s ! 3 = CHR '' '' \<and> s ! 7 = CHR '' '' \<and> s ! 10 = CHR '' ''
         \<and> indexOf (take 3 s) dayNames \<noteq> None
      then civilDate (readNat (drop 11 s))
             (map_option (\<lambda>i. i + 1) (indexOf (take 3 (drop 4 s)) monthNames))
             (readNat (take 2 (drop 8 s)))
      else None)"

definition utcNewDate :: "string \<Rightarrow> jsdate" where
  "utcNewDate s =
     (case parseIsoDay s of
        Some d \<Rightarrow> d
      | None \<Rightarrow> (case parseDayString s of Some d \<Rightarrow> d | None \<Rightarrow> InvalidDate))"

definition utcRuntime :: runtime where
  "utcRuntime =
     \<lparr>newDate = utcNewDate,
      toDateString = utcToDateString,
      nullPropertyText = (\<lambda>p. ''Cannot read property '' @ [CHR 0x27] @ p @ [CHR 0x27] @ '' of null''),
      undefinedPropertyText =
        (\<lambda>p. ''Cannot read property '' @ [CHR 0x27] @ p @ [CHR 0x27] @ '' of undefined''),
      invalidLengthText = ''Invalid array length'',
      requiredText = (\<lambda>p. ''Path `'' @ p @ ''` is required.''),
      validationText =
        (\<lambda>p. ''User validation failed: '' @ p @ '': Path `'' @ p @ ''` is required.''),
      duplicateKeyText = (\<lambda>i. ''E11000 duplicate key error dup key: { _id: '' @ i @ '' }'')\<rparr>"

subsection \<open>Sequences of requests\<close>

text \<open>
  The collections the server can reach from the empty one: only the two
  POST handlers write.
\<close>

inductive reachable :: "runtime \<Rightarrow> 'n db \<Rightarrow> bool" for rt :: runtime where
  start: "reachable rt []"
| create: "reachable rt db \<Longrightarrow> reachable rt (fst (createUserHandler rt fresh username db))"
| add: "reachable rt db \<Longrightarrow> reachable rt (fst (addExerciseHandler rt now fresh i b db))"

text \<open>
  A run of exercise additions against one identifier; each call has its
  own clock reading, generated identifier and body.
\<close>

type_synonym 'n call = "int \<times> string \<times> 'n exercise_body"

definition callExercise :: "runtime \<Rightarrow> 'n call \<Rightarrow> 'n exercise" where
  "callExercise rt c = newExercise rt (fst c) (fst (snd c)) (snd (snd c))"

fun addExercises ::
  "runtime \<Rightarrow> string \<Rightarrow> 'n call list \<Rightarrow> 'n db \<Rightarrow> 'n db \<times> (js_error + 'n response) list" where
  "addExercises rt i [] db = (db, [])"
| "addExercises rt i (c # cs) db =
     (case addExerciseHandler rt (fst c) (fst (snd c)) i (snd (snd c)) db of
        (db1, r) \<Rightarrow> (case addExercises rt i cs db1 of (db2, rs) \<Rightarrow> (db2, r # rs)))"

definition answered :: "nat \<Rightarrow> js_error + 'n response \<Rightarrow> bool" where
  "answered c r = (case r of Inl _ \<Rightarrow> False | Inr resp \<Rightarrow> code resp = c)"

text \<open>The value of a key of a JSON object, if the object has the key.\<close>

definition field :: "string \<Rightarrow> 'n json \<Rightarrow> 'n json option" where
  "field k v = (case v of JObj kvs \<Rightarrow> map_of kvs k | _ \<Rightarrow> None)"

subsection \<open>What the specification says, for comparison\<close>

text \<open>
  The error stage as the specification words it: 400 and the first
  validation failure's message for an error carrying validation
  failures; otherwise the attached status or 500, and the message or
  ``Internal Server Error''; plain text either way.
\<close>

definition specErrorResponse :: "js_error \<Rightarrow> text_response" where
  "specErrorResponse err =
     (case errors err of
        Some es \<Rightarrow> \<lparr>errCode = 400, ctype = ''txt'', errMessage = snd (hd es)\<rparr>
      | None \<Rightarrow>
          \<lparr>errCode = (case status err of Some c \<Rightarrow> c | None \<Rightarrow> 500),
           ctype = ''txt'',
           errMessage = (case message err of Some m \<Rightarrow> m | None \<Rightarrow> ''Internal Server Error'')\<rparr>)"

text \<open>
  The log as the specification words it, on the stored exercises: those
  kept whose date lies within the inclusive bounds that are present, then
  the first \<open>limit\<close> of them when \<open>limit\<close> is present and smaller than the
  number kept. A parameter is present when it is given and not empty.
\<close>

fun date_le :: "jsdate \<Rightarrow> jsdate \<Rightarrow> bool" where
  "date_le (Time a) (Time b) = (a \<le> b)"
| "date_le _ _ = False"

definition presentBound :: "runtime \<Rightarrow> string option \<Rightarrow> jsdate option" where
  "presentBound rt s =
     (case s of None \<Rightarrow> None | Some v \<Rightarrow> if v = [] then None else Some (newDate rt v))"

definition limitOf :: "query \<Rightarrow> jsnum option" where
  "limitOf q =
     (case qlimit q of None \<Rightarrow> None | Some v \<Rightarrow> if v = [] then None else Some (parseInt v))"

definition dateWithin :: "jsdate option \<Rightarrow> jsdate option \<Rightarrow> 'n exercise \<Rightarrow> bool" where
  "dateWithin lower upper ex =
     ((case lower of None \<Rightarrow> True | Some f \<Rightarrow> date_le f (Time (the (date ex))))
      \<and> (case upper of None \<Rightarrow> True | Some t \<Rightarrow> date_le (Time (the (date ex))) t))"

definition truncated :: "jsnum option \<Rightarrow> 'a list \<Rightarrow> 'a list" where
  "truncated limit xs =
     (case limit of
        Some (Num k) \<Rightarrow> if k < int (length xs) then take (nat k) xs else xs
      | _ \<Rightarrow> xs)"

definition specLog :: "runtime \<Rightarrow> query \<Rightarrow> 'n exercise list \<Rightarrow> 'n exercise list" where
  "specLog rt q exs =
     truncated (limitOf q)
       (filter (dateWithin (presentBound rt (qfrom q)) (presentBound rt (qto q))) exs)"

text \<open>
  The log as the code has it by design, on the stored exercises. The
  date compared is not the exercise's date but its day: the date the
  engine reads back from the exercise's day string (local midnight of
  that day). A bound counts when it is present and a valid date, a day
  string that does not read back as a date passes every bound, and a
  limit of 0 truncates nothing.
\<close>

definition boundOf :: "runtime \<Rightarrow> string option \<Rightarrow> int option" where
  "boundOf rt s =
     (case s of
        None \<Rightarrow> None
      | Some v \<Rightarrow>
          if v = [] then None
          else (case newDate rt v of Time t \<Rightarrow> Some t | InvalidDate \<Rightarrow> None))"

definition dayWithin :: "runtime \<Rightarrow> int option \<Rightarrow> int option \<Rightarrow> 'n exercise \<Rightarrow> bool" where
  "dayWithin rt lo hi ex =
     (case newDate rt (toDateString rt (Time (the (date ex)))) of
        InvalidDate \<Rightarrow> True
      | Time d \<Rightarrow>
          (case lo of None \<Rightarrow> True | Some a \<Rightarrow> a \<le> d)
          \<and> (case hi of None \<Rightarrow> True | Some b \<Rightarrow> d \<le> b))"

definition keptExercises :: "runtime \<Rightarrow> query \<Rightarrow> 'n exercise list \<Rightarrow> 'n exercise list" where
  "keptExercises rt q exs =
     filter (dayWithin rt (boundOf rt (qfrom q)) (boundOf rt (qto q))) exs"

definition limited :: "jsnum option \<Rightarrow> 'a list \<Rightarrow> 'a list" where
  "limited limit xs =
     (case limit of
        Some (Num k) \<Rightarrow> if k \<noteq> 0 \<and> k < int (length xs) then take (nat k) xs else xs
      | _ \<Rightarrow> xs)"

definition designedLog :: "runtime \<Rightarrow> query \<Rightarrow> 'n exercise list \<Rightarrow> 'n exercise list" where
  "designedLog rt q exs = limited (limitOf q) (keptExercises rt q exs)"

text \<open>
  The JSON of a log entry and of the whole answer, written out. These are
  abbreviations: a statement using them holds the objects themselves.
\<close>

abbreviation dayEntry :: "runtime \<Rightarrow> 'n exercise \<Rightarrow> 'n entry" where
  "dayEntry rt ex \<equiv> (description ex, duration ex, toDateString rt (Time (the (date ex))))"

abbreviation logEntry :: "runtime \<Rightarrow> 'n exercise \<Rightarrow> 'n json" where
  "logEntry rt ex \<equiv>
     JObj [(''description'', JStr (description ex)),
           (''duration'', JNum (duration ex)),
           (''date'', JStr (toDateString rt (Time (the (date ex)))))]"

abbreviation logAnswer :: "runtime \<Rightarrow> 'n user \<Rightarrow> 'n exercise list \<Rightarrow> 'n response" where
  "logAnswer rt u exs \<equiv>
     \<lparr>code = 200,
      json = JObj [(''_id'', JStr (u_id u)),
                   (''username'', JStr (name u)),
                   (''count'', JNat (length (exercises u))),
                   (''log'', JArr (map (logEntry rt) exs))]\<rparr>"

subsection \<open>Sample data\<close>

text \<open>
  The user of the specification's example, with exercises dated 2024-01-01,
  2024-01-15 and 2024-02-01.
\<close>

definition sampleCalls :: "int call list" where
  "sampleCalls =
     [(1706800000000, ''e1'', \<lparr>b_description = ''run'', b_duration = 30, b_date = Some ''2024-01-01''\<rparr>),
      (1706800000001, ''e2'', \<lparr>b_description = ''swim'', b_duration = 45, b_date = Some ''2024-01-15''\<rparr>),
      (1706800000002, ''e3'', \<lparr>b_description = ''row'', b_duration = 20, b_date = Some ''2024-02-01''\<rparr>)]"

definition sampleExercises :: "int exercise list" where
  "sampleExercises =
     [\<lparr>e_id = ''e1'', description = ''run'', duration = 30, date = Some 1704067200000\<rparr>,
      \<lparr>e_id = ''e2'', description = ''swim'', duration = 45, date = Some 1705276800000\<rparr>,
      \<lparr>e_id = ''e3'', description = ''row'', duration = 20, date = Some 1706745600000\<rparr>]"

definition sampleUser :: "int user" where
  "sampleUser = \<lparr>u_id = ''u1'', name = ''alice'', count = 3, exercises = sampleExercises\<rparr>"

definition sampleDb :: "int db" where
  "sampleDb = [sampleUser]"

definition noQuery :: query where
  "noQuery = \<lparr>qfrom = None, qto = None, qlimit = None\<rparr>"

text \<open>A user with one exercise, at 10:00 UTC on 2024-01-15.\<close>

definition lateExercise :: "int exercise" where
  "lateExercise = \<lparr>e_id = ''e5'', description = ''walk'', duration = 10, date = Some 1705312800000\<rparr>"

definition lateUser :: "int user" where
  "lateUser = \<lparr>u_id = ''u2'', name = ''bob'', count = 1, exercises = [lateExercise]\<rparr>"

text \<open>A request body whose date is not one.\<close>

definition garbageBody :: "int exercise_body" where
  "garbageBody = \<lparr>b_description = ''walk'', b_duration = 10, b_date = Some ''garbage''\<rparr>"

section \<open>Properties\<close>

subsection \<open>The sample runtime on the sample data\<close>

lemma utc_fields:
  "newDate utcRuntime = utcNewDate"
  "toDateString utcRuntime = utcToDateString"
  "nullPropertyText utcRuntime p = ''Cannot read property '' @ [CHR 0x27] @ p @ [CHR 0x27] @ '' of null''"
  "undefinedPropertyText utcRuntime p =
     ''Cannot read property '' @ [CHR 0x27] @ p @ [CHR 0x27] @ '' of undefined''"
  "invalidLengthText utcRuntime = ''Invalid array length''"
  "requiredText utcRuntime p = ''Path `'' @ p @ ''` is required.''"
  "validationText utcRuntime p = ''User validation failed: '' @ p @ '': Path `'' @ p @ ''` is required.''"
  by (simp_all add: utcRuntime_def)

lemma utc_read_iso:
  "utcNewDate ''2024-01-01'' = Time 1704067200000"
  "utcNewDate ''2024-01-15'' = Time 1705276800000"
  "utcNewDate ''2024-02-01'' = Time 1706745600000"
  "utcNewDate ''2024-01-10'' = Time 1704844800000"
  "utcNewDate ''2024-01-31'' = Time 1706659200000"
  "utcNewDate ''garbage'' = InvalidDate"
  by code_simp+

lemma utc_write_day:
  "utcToDateString (Time 1704067200000) = ''Mon Jan 01 2024''"
  "utcToDateString (Time 1705276800000) = ''Mon Jan 15 2024''"
  "utcToDateString (Time 1706745600000) = ''Thu Feb 01 2024''"
  "utcToDateString (Time 1705312800000) = ''Mon Jan 15 2024''"
  by code_simp+

lemma utc_read_day:
  "utcNewDate ''Mon Jan 01 2024'' = Time 1704067200000"
  "utcNewDate ''Mon Jan 15 2024'' = Time 1705276800000"
  "utcNewDate ''Thu Feb 01 2024'' = Time 1706745600000"
  by code_simp+

lemma parseInt_samples:
  "parseInt ''0'' = Num 0"
  "parseInt ''1'' = Num 1"
  "parseInt ''abc'' = NaN"
  "parseInt ''-1'' = Num (- 1)"
  by code_simp+

lemma sample_exercises: "map (callExercise utcRuntime) sampleCalls = sampleExercises"
  by (simp add: sampleCalls_def sampleExercises_def callExercise_def newExercise_def ifTruthy_def
      castDate_def utc_fields utc_read_iso)

lemma sample_user:
  "u_id sampleUser = ''u1''" "name sampleUser = ''alice''" "count sampleUser = 3"
  "exercises sampleUser = sampleExercises"
  by (simp_all add: sampleUser_def)

lemma sample_nonempty: "sampleExercises \<noteq> []" "length sampleExercises = 3"
  by (simp_all add: sampleExercises_def)

lemma sample_found: "findById sampleDb ''u1'' = Some sampleUser"
  by (simp add: findById_def sampleDb_def sampleUser_def)

lemma sample_dated: "\<forall>ex \<in> set (exercises sampleUser). date ex \<noteq> None"
  by (simp add: sample_user sampleExercises_def)

lemma sample_log:
  "formatLog utcRuntime sampleExercises =
     Inr [(''run'', 30, ''Mon Jan 01 2024''), (''swim'', 45, ''Mon Jan 15 2024''),
          (''row'', 20, ''Thu Feb 01 2024'')]"
  by (simp add: entryOf_def sampleExercises_def utc_fields utc_write_day)

subsection \<open>The store and the two writing handlers\<close>

lemma findById_updateFirst:
  "findById db i = Some u \<Longrightarrow> findById (updateFirst i ex db) i = Some (pushAndInc ex u)"
  by (induction db) (auto simp: findById_def pushAndInc_def)

lemma updateFirst_absent: "findById db i = None \<Longrightarrow> updateFirst i ex db = db"
  by (induction db) (auto simp: findById_def)

lemma findById_id: "findById db i = Some u \<Longrightarrow> u_id u = i"
  by (auto simp: findById_def find_Some_iff)

lemma add_dated:
  assumes "findById db i = Some u" and "date (newExercise rt now fresh b) = Some t"
  shows "addExerciseHandler rt now fresh i b db =
     (updateFirst i (newExercise rt now fresh b) db,
      Inr \<lparr>code = 201,
           json = JObj [(''username'', JStr (name u)),
                        (''description'', JStr (b_description b)),
                        (''duration'', JNum (b_duration b)),
                        (''_id'', JStr (u_id u)),
                        (''date'', JStr (toDateString rt (Time t)))]\<rparr>)"
  using assms
  by (simp add: addExerciseHandler_def findByIdAndUpdate_def json_object_def pushAndInc_def Let_def)
     (simp add: newExercise_def)

lemma add_dateless:
  assumes "findById db i = Some u" and "date (newExercise rt now fresh b) = None"
  shows "addExerciseHandler rt now fresh i b db =
     (updateFirst i (newExercise rt now fresh b) db, Inl (undefinedProperty rt ''toDateString''))"
  using assms
  by (simp add: addExerciseHandler_def findByIdAndUpdate_def Let_def)

lemma add_missing:
  "findById db i = None \<Longrightarrow>
   addExerciseHandler rt now fresh i b db = (db, Inl (nullProperty rt ''name''))"
  by (simp add: addExerciseHandler_def findByIdAndUpdate_def)

lemma add_db:
  "fst (addExerciseHandler rt now fresh i b db) = updateFirst i (newExercise rt now fresh b) db"
proof (cases "findById db i")
  case None
  then show ?thesis by (simp add: add_missing updateFirst_absent)
next
  case (Some u)
  then show ?thesis
    by (cases "date (newExercise rt now fresh b)") (simp_all add: add_dated add_dateless)
qed

lemma add_answer:
  "findById db i = Some u \<Longrightarrow>
   answered 201 (snd (addExerciseHandler rt now fresh i b db))
     = (date (newExercise rt now fresh b) \<noteq> None)"
  by (cases "date (newExercise rt now fresh b)") (simp_all add: add_dated add_dateless answered_def)

lemma create_db:
  "fst (createUserHandler rt fresh username db) = db
   \<or> fst (createUserHandler rt fresh username db) = db @ [newUser fresh username]"
  by (auto simp: createUserHandler_def save_def split: option.splits)

subsection \<open>The count of a user\<close>

lemma updateFirst_invariant:
  "\<forall>u \<in> set db. count u = length (exercises u) \<Longrightarrow>
   \<forall>u \<in> set (updateFirst i ex db). count u = length (exercises u)"
  by (induction db) (auto simp: pushAndInc_def)

lemma reachable_invariant:
  "reachable rt db \<Longrightarrow> \<forall>u \<in> set db. count u = length (exercises u)"
proof (induction rule: reachable.induct)
  case start
  show ?case by simp
next
  case (create db fresh username)
  from create_db [of rt fresh username db] create.IH show ?case
    by (auto simp: newUser_def)
next
  case (add db now fresh i b)
  have "\<forall>u \<in> set (updateFirst i (newExercise rt now fresh b) db). count u = length (exercises u)"
    using add.IH by (rule updateFirst_invariant)
  then show ?case by (simp only: add_db)
qed

lemma addExercises_existing:
  fixes rt :: runtime and calls :: "'n call list"
  shows "findById db i = Some u \<Longrightarrow>
   (case addExercises rt i calls db of
      (db', rs) \<Rightarrow>
        findById db' i =
            Some (u\<lparr>exercises := exercises u @ map (callExercise rt) calls,
                    count := count u + length calls\<rparr>)
        \<and> list_all (answered 201) rs
            = list_all (\<lambda>c. date (callExercise rt c) \<noteq> None) calls)"
proof (induction calls arbitrary: db u)
  case Nil
  then show ?case by simp
next
  case (Cons c cs)
  let ?ex = "newExercise rt (fst c) (fst (snd c)) (snd (snd c))"
  let ?db1 = "updateFirst i ?ex db"
  let ?r = "snd (addExerciseHandler rt (fst c) (fst (snd c)) i (snd (snd c)) db)"
  have step: "addExerciseHandler rt (fst c) (fst (snd c)) i (snd (snd c)) db = (?db1, ?r)"
    using add_db [of rt "fst c" "fst (snd c)" i "snd (snd c)" db] by (simp add: prod_eq_iff)
  have ok: "answered 201 ?r = (date ?ex \<noteq> None)"
    using Cons.prems by (rule add_answer)
  have found: "findById ?db1 i = Some (pushAndInc ?ex u)"
    using Cons.prems by (rule findById_updateFirst)
  from Cons.IH [OF found] step ok show ?case
    by (auto simp: pushAndInc_def callExercise_def split: prod.splits)
qed

lemma reachable_addExercises:
  "reachable rt db \<Longrightarrow> reachable rt (fst (addExercises rt i calls db))"
proof (induction calls arbitrary: db)
  case Nil
  then show ?case by simp
next
  case (Cons c cs)
  have unfold: "fst (addExercises rt i (c # cs) db)
      = fst (addExercises rt i cs (fst (addExerciseHandler rt (fst c) (fst (snd c)) i (snd (snd c)) db)))"
    by (simp split: prod.splits)
  have "reachable rt (fst (addExerciseHandler rt (fst c) (fst (snd c)) i (snd (snd c)) db))"
    using Cons.prems by (rule reachable.add)
  from Cons.IH [OF this] show ?case
    by (simp only: unfold)
qed

lemma sample_built:
  "fst (addExercises utcRuntime ''u1'' sampleCalls
          (fst (createUserHandler utcRuntime ''u1'' ''alice'' []))) = sampleDb"
  by (simp add: sampleCalls_def sampleDb_def sampleUser_def sampleExercises_def
      createUserHandler_def findOne_def save_def findById_def newUser_def
      addExerciseHandler_def findByIdAndUpdate_def pushAndInc_def newExercise_def ifTruthy_def
      castDate_def utc_fields utc_read_iso)

lemma sample_reachable: "reachable utcRuntime sampleDb"
proof -
  have "reachable utcRuntime (fst (createUserHandler utcRuntime ''u1'' ''alice'' ([] :: int db)))"
    by (rule reachable.create) (rule reachable.start)
  then have "reachable utcRuntime (fst (addExercises utcRuntime ''u1'' sampleCalls
      (fst (createUserHandler utcRuntime ''u1'' ''alice'' ([] :: int db)))))"
    by (rule reachable_addExercises)
  then show ?thesis by (simp only: sample_built)
qed

lemma garbage_exercise:
  "newExercise utcRuntime now fresh garbageBody =
     \<lparr>e_id = fresh, description = ''walk'', duration = 10, date = None\<rparr>"
  by (simp add: newExercise_def garbageBody_def ifTruthy_def castDate_def utc_fields utc_read_iso)

text \<open>
  Claim C1. In every collection the server can reach, the count of each
  user is the length of its exercise list. A run of additions against a
  user that exists leaves that user with the exercises of the calls
  appended in call order and the count raised by their number, each call
  pushing and incrementing in the one update; the calls are all answered
  201 exactly when every call's date is absent or a valid date (a call
  with another date is written and then answered with an error). For a
  user who had no exercise (count 0) the count is then the number of calls
  and the list is exactly the calls' exercises. An addition against an
  identifier that is not stored writes nothing.
\<close>

theorem count_is_length:
  "(reachable rt db \<longrightarrow> (\<forall>u \<in> set db. count u = length (exercises u)))
   \<and> (findById db i = Some u \<longrightarrow>
        (case addExercises rt i calls db of
           (db', rs) \<Rightarrow>
             findById db' i =
                 Some (u\<lparr>exercises := exercises u @ map (callExercise rt) calls,
                         count := count u + length calls\<rparr>)
             \<and> list_all (answered 201) rs
                 = list_all (\<lambda>c. date (callExercise rt c) \<noteq> None) calls))
   \<and> (findById db i = Some u \<and> exercises u = [] \<and> count u = 0 \<longrightarrow>
        (case findById (fst (addExercises rt i calls db)) i of
           None \<Rightarrow> False
         | Some u' \<Rightarrow>
             count u' = length calls \<and> length (exercises u') = length calls
             \<and> exercises u' = map (callExercise rt) calls))
   \<and> (findById db i = None \<longrightarrow> fst (addExerciseHandler rt now fresh i b db) = db)"
  using reachable_invariant [of rt db]
    addExercises_existing [where db = db and i = i and u = u and rt = rt and calls = calls]
    add_missing [where db = db and i = i and rt = rt and now = now and fresh = fresh and b = b]
  by (auto split: prod.splits)

text \<open>
  On the sample data: the three calls of the example, from a new user, are
  all answered 201 and give the sample user; a fourth call whose date is
  not one is written too (count 4, four exercises) and answered with an
  error.
\<close>

theorem count_is_length_witness:
  "reachable utcRuntime sampleDb
   \<and> count sampleUser = length (exercises sampleUser)
   \<and> addExercises utcRuntime ''u1'' sampleCalls [newUser ''u1'' ''alice'']
       = ([sampleUser],
          [Inr \<lparr>code = 201,
                json = JObj [(''username'', JStr ''alice''), (''description'', JStr ''run''),
                             (''duration'', JNum 30), (''_id'', JStr ''u1''),
                             (''date'', JStr ''Mon Jan 01 2024'')]\<rparr>,
           Inr \<lparr>code = 201,
                json = JObj [(''username'', JStr ''alice''), (''description'', JStr ''swim''),
                             (''duration'', JNum 45), (''_id'', JStr ''u1''),
                             (''date'', JStr ''Mon Jan 15 2024'')]\<rparr>,
           Inr \<lparr>code = 201,
                json = JObj [(''username'', JStr ''alice''), (''description'', JStr ''row''),
                             (''duration'', JNum 20), (''_id'', JStr ''u1''),
                             (''date'', JStr ''Thu Feb 01 2024'')]\<rparr>])
   \<and> count sampleUser = length sampleCalls
   \<and> addExerciseHandler utcRuntime 1706800000003 ''e4'' ''u1'' garbageBody sampleDb
       = ([\<lparr>u_id = ''u1'', name = ''alice'', count = 4,
            exercises = sampleExercises @
              [\<lparr>e_id = ''e4'', description = ''walk'', duration = 10, date = None\<rparr>]\<rparr>],
          Inl (thrown TypeError ''Cannot read property 'toDateString' of undefined''))
   \<and> fst (addExerciseHandler utcRuntime 0 ''e9'' ''nobody''
         \<lparr>b_description = ''walk'', b_duration = 10, b_date = None\<rparr> sampleDb) = sampleDb"
proof -
  have new: "findById [newUser ''u1'' ''alice'' :: int user] ''u1'' = Some (newUser ''u1'' ''alice'')"
    by (simp add: findById_def newUser_def)
  have none: "findById sampleDb ''nobody'' = None"
    by (simp add: findById_def sampleDb_def sampleUser_def)
  have "count sampleUser = length (exercises sampleUser)"
    using count_is_length [of utcRuntime sampleDb] sample_reachable
    by (simp add: sampleDb_def)
  moreover have "findById (fst (addExercises utcRuntime ''u1'' sampleCalls [newUser ''u1'' ''alice''])) ''u1''
       = Some sampleUser"
  proof -
    obtain db' rs where run:
      "addExercises utcRuntime ''u1'' sampleCalls [newUser ''u1'' ''alice''] = (db', rs)"
      by (cases "addExercises utcRuntime ''u1'' sampleCalls [newUser ''u1'' ''alice'' :: int user]")
    have "length sampleCalls = 3"
      by (simp add: sampleCalls_def)
    with count_is_length [of utcRuntime "[newUser ''u1'' ''alice'']" "''u1''"
        "newUser ''u1'' ''alice''" sampleCalls] new run
    show ?thesis
      by (simp add: sample_exercises sampleUser_def newUser_def)
  qed
  moreover have "fst (addExerciseHandler utcRuntime 0 ''e9'' ''nobody''
         \<lparr>b_description = ''walk'', b_duration = 10, b_date = None\<rparr> sampleDb) = sampleDb"
    using count_is_length [of utcRuntime sampleDb "''nobody''"] none by simp
  moreover have "addExercises utcRuntime ''u1'' sampleCalls [newUser ''u1'' ''alice'']
       = ([sampleUser],
          [Inr \<lparr>code = 201,
                json = JObj [(''username'', JStr ''alice''), (''description'', JStr ''run''),
                             (''duration'', JNum 30), (''_id'', JStr ''u1''),
                             (''date'', JStr ''Mon Jan 01 2024'')]\<rparr>,
           Inr \<lparr>code = 201,
                json = JObj [(''username'', JStr ''alice''), (''description'', JStr ''swim''),
                             (''duration'', JNum 45), (''_id'', JStr ''u1''),
                             (''date'', JStr ''Mon Jan 15 2024'')]\<rparr>,
           Inr \<lparr>code = 201,
                json = JObj [(''username'', JStr ''alice''), (''description'', JStr ''row''),
                             (''duration'', JNum 20), (''_id'', JStr ''u1''),
                             (''date'', JStr ''Thu Feb 01 2024'')]\<rparr>])"
    by (simp add: sampleCalls_def sampleUser_def sampleExercises_def newUser_def
        addExerciseHandler_def findByIdAndUpdate_def findById_def pushAndInc_def newExercise_def
        ifTruthy_def castDate_def json_object_def utc_fields utc_read_iso utc_write_day)
  moreover have "addExerciseHandler utcRuntime 1706800000003 ''e4'' ''u1'' garbageBody sampleDb
       = ([\<lparr>u_id = ''u1'', name = ''alice'', count = 4,
            exercises = sampleExercises @
              [\<lparr>e_id = ''e4'', description = ''walk'', duration = 10, date = None\<rparr>]\<rparr>],
          Inl (thrown TypeError ''Cannot read property 'toDateString' of undefined''))"
    using add_dateless [OF sample_found, of utcRuntime 1706800000003 "''e4''" garbageBody]
    by (simp add: garbage_exercise sampleDb_def sampleUser_def pushAndInc_def undefinedProperty_def
        utc_fields)
  ultimately show ?thesis
    using sample_reachable by (simp add: sampleUser_def sampleCalls_def sampleExercises_def)
qed

subsection \<open>User creation\<close>

lemma findOne_name: "findOne db n = Some u \<Longrightarrow> name u = n"
  by (auto simp: findOne_def find_Some_iff)

lemma findOne_append_new:
  "findOne db n = None \<Longrightarrow> findOne (db @ [newUser fresh n]) n = Some (newUser fresh n)"
  by (induction db) (auto simp: findOne_def newUser_def)

lemma create_existing:
  "findOne db n = Some u \<Longrightarrow>
   createUserHandler rt fresh n db =
     (db, Inr \<lparr>code = 200,
               json = JObj [(''_id'', JStr (u_id u)), (''username'', JStr (name u)),
                            (''count'', JNat (count u))]\<rparr>)"
  by (simp add: createUserHandler_def json_object_def)

lemma create_new:
  "findOne db n = None \<Longrightarrow> n \<noteq> [] \<Longrightarrow> findById db fresh = None \<Longrightarrow>
   createUserHandler rt fresh n db =
     (db @ [\<lparr>u_id = fresh, name = n, count = 0, exercises = []\<rparr>],
      Inr \<lparr>code = 201, json = JObj [(''username'', JStr n), (''_id'', JStr fresh)]\<rparr>)"
  by (simp add: createUserHandler_def save_def newUser_def json_object_def)

text \<open>
  Claim C2. Creating a user is idempotent by name. When a user with
  the name is stored, the answer is 200 with that user's identifier, name
  and count, and the collection is unchanged. When none is stored, the
  name is not empty (the schema requires it) and the generated identifier
  is not in use, a user with count 0 and no exercises is appended and the
  answer is 201 with the name and the identifier; the same request again,
  whatever identifier is generated for it, answers 200 with the identifier
  and the name of the first answer and stores nothing more.
\<close>

theorem create_idempotent_by_name:
  fixes db :: "'n db"
  shows
  "(findOne db n = Some u \<longrightarrow>
      name u = n
      \<and> createUserHandler rt fresh n db =
          (db, Inr \<lparr>code = 200,
                    json = JObj [(''_id'', JStr (u_id u)), (''username'', JStr (name u)),
                                 (''count'', JNat (count u))]\<rparr>))
   \<and> (findOne db n = None \<and> n \<noteq> [] \<and> findById db fresh = None \<longrightarrow>
        createUserHandler rt fresh n db =
          (db @ [\<lparr>u_id = fresh, name = n, count = 0, exercises = []\<rparr>],
           Inr \<lparr>code = 201, json = JObj [(''username'', JStr n), (''_id'', JStr fresh)]\<rparr>)
        \<and> createUserHandler rt fresh' n (fst (createUserHandler rt fresh n db)) =
            (fst (createUserHandler rt fresh n db),
             Inr \<lparr>code = 200,
                  json = JObj [(''_id'', JStr fresh), (''username'', JStr n),
                               (''count'', JNat 0)]\<rparr>))"
proof (intro conjI impI)
  assume "findOne db n = Some u"
  then show "name u = n" by (rule findOne_name)
next
  assume "findOne db n = Some u"
  then show "createUserHandler rt fresh n db =
          (db, Inr \<lparr>code = 200,
                    json = JObj [(''_id'', JStr (u_id u)), (''username'', JStr (name u)),
                                 (''count'', JNat (count u))]\<rparr>)"
    by (rule create_existing)
next
  assume "findOne db n = None \<and> n \<noteq> [] \<and> findById db fresh = None"
  then show "createUserHandler rt fresh n db =
          (db @ [\<lparr>u_id = fresh, name = n, count = 0, exercises = []\<rparr>],
           Inr \<lparr>code = 201, json = JObj [(''username'', JStr n), (''_id'', JStr fresh)]\<rparr>)"
    by (simp add: create_new)
next
  assume a: "findOne db n = None \<and> n \<noteq> [] \<and> findById db fresh = None"
  then have first: "fst (createUserHandler rt fresh n db) = db @ [newUser fresh n]"
    by (simp add: create_new newUser_def)
  from a have "findOne (db @ [newUser fresh n]) n = Some (newUser fresh n)"
    by (simp add: findOne_append_new)
  then have "createUserHandler rt fresh' n (db @ [newUser fresh n]) =
     (db @ [newUser fresh n],
      Inr \<lparr>code = 200,
           json = JObj [(''_id'', JStr (u_id (newUser fresh n :: 'n user))),
                        (''username'', JStr (name (newUser fresh n :: 'n user))),
                        (''count'', JNat (count (newUser fresh n :: 'n user)))]\<rparr>)"
    by (rule create_existing)
  then show "createUserHandler rt fresh' n (fst (createUserHandler rt fresh n db)) =
            (fst (createUserHandler rt fresh n db),
             Inr \<lparr>code = 200,
                  json = JObj [(''_id'', JStr fresh), (''username'', JStr n),
                               (''count'', JNat 0)]\<rparr>)"
    by (simp add: first newUser_def)
qed

theorem create_idempotent_by_name_witness:
  "createUserHandler utcRuntime ''u2'' ''alice'' sampleDb =
     (sampleDb, Inr \<lparr>code = 200,
                     json = JObj [(''_id'', JStr ''u1''), (''username'', JStr ''alice''),
                                  (''count'', JNat 3)]\<rparr>)
   \<and> createUserHandler utcRuntime ''u2'' ''bob'' sampleDb =
     (sampleDb @ [\<lparr>u_id = ''u2'', name = ''bob'', count = 0, exercises = []\<rparr>],
      Inr \<lparr>code = 201, json = JObj [(''username'', JStr ''bob''), (''_id'', JStr ''u2'')]\<rparr>)
   \<and> createUserHandler utcRuntime ''u3'' ''bob''
        (fst (createUserHandler utcRuntime ''u2'' ''bob'' sampleDb)) =
     (fst (createUserHandler utcRuntime ''u2'' ''bob'' sampleDb),
      Inr \<lparr>code = 200,
           json = JObj [(''_id'', JStr ''u2''), (''username'', JStr ''bob''), (''count'', JNat 0)]\<rparr>)"
proof -
  have found: "findOne sampleDb ''alice'' = Some sampleUser"
    by (simp add: findOne_def sampleDb_def sampleUser_def)
  have fresh: "findOne sampleDb ''bob'' = None \<and> ''bob'' \<noteq> [] \<and> findById sampleDb ''u2'' = None"
    by (simp add: findOne_def findById_def sampleDb_def sampleUser_def)
  from create_idempotent_by_name [of sampleDb "''alice''" sampleUser utcRuntime "''u2''"] found
    create_idempotent_by_name [of sampleDb "''bob''" sampleUser utcRuntime "''u2''" "''u3''"] fresh
  show ?thesis
    by (clarsimp simp: sampleUser_def)
qed

subsection \<open>A user that is not stored\<close>

lemma get_missing:
  "findById db i = None \<Longrightarrow> getUserHandler rt q i db = Inl (nullProperty rt ''toObject'')"
  by (simp add: getUserHandler_def)

lemma nullProperty_is_500:
  "errorMiddleware rt (nullProperty rt p) =
     Inr \<lparr>errCode = 500, ctype = ''txt'',
          errMessage = (if nullPropertyText rt p \<noteq> [] then nullPropertyText rt p
                        else ''Internal Server Error'')\<rparr>"
  by (simp add: errorMiddleware_def nullProperty_def thrown_def)

text \<open>
  Claim C3. For an identifier that is not stored the claim asks for 404
  from both handlers. The code does not test the result of the lookup
  (as \<open>createUserHandler\<close> does with \<open>if (user)\<close>): \<open>user.name\<close> and
  \<open>user.toObject()\<close> read a property of \<open>null\<close>, the \<open>TypeError\<close> is caught
  and forwarded, and an error with no \<open>status\<close> is answered with 500. Here
  are both handlers on the sample collection with the identifier
  \<open>nobody\<close>.
\<close>

theorem missing_user_answers_500:
  "addExerciseHandler utcRuntime 1705312800000 ''e4'' ''nobody''
      \<lparr>b_description = ''walk'', b_duration = 10, b_date = None\<rparr> sampleDb
     = (sampleDb, Inl (thrown TypeError ''Cannot read property 'name' of null''))
   \<and> errorMiddleware utcRuntime (thrown TypeError ''Cannot read property 'name' of null'')
     = Inr \<lparr>errCode = 500, ctype = ''txt'', errMessage = ''Cannot read property 'name' of null''\<rparr>
   \<and> getUserHandler utcRuntime noQuery ''nobody'' sampleDb
     = Inl (thrown TypeError ''Cannot read property 'toObject' of null'')
   \<and> errorMiddleware utcRuntime (thrown TypeError ''Cannot read property 'toObject' of null'')
     = Inr \<lparr>errCode = 500, ctype = ''txt'',
            errMessage = ''Cannot read property 'toObject' of null''\<rparr>"
proof -
  have none: "findById sampleDb ''nobody'' = None"
    by (simp add: findById_def sampleDb_def sampleUser_def)
  show ?thesis
    using add_missing [OF none] get_missing [OF none]
    by (simp add: nullProperty_def utc_fields errorMiddleware_def thrown_def)
qed

subsection \<open>Adding an exercise\<close>

text \<open>
  Claim C6. An addition against a stored user, with a body whose date is
  absent (or empty) or a string that reads as a date, answers 201 with
  exactly the keys username, description, duration, \<open>_id\<close> (the user's
  identifier) and date; the user is stored with the exercise appended and
  the count incremented. The date stored is \<open>t\<close> and the date returned is
  the day string of \<open>t\<close>, where \<open>t\<close> is what the body's date reads as when
  one is given, and the clock's reading at the call when none is.
\<close>

theorem add_exercise_response:
  assumes "findById db i = Some u"
    and "(b_date b = None \<and> t = now) \<or> (b_date b = Some [] \<and> t = now)
         \<or> (\<exists>s. b_date b = Some s \<and> s \<noteq> [] \<and> newDate rt s = Time t)"
  shows "addExerciseHandler rt now fresh i b db =
     (updateFirst i \<lparr>e_id = fresh, description = b_description b, duration = b_duration b,
                     date = Some t\<rparr> db,
      Inr \<lparr>code = 201,
           json = JObj [(''username'', JStr (name u)),
                        (''description'', JStr (b_description b)),
                        (''duration'', JNum (b_duration b)),
                        (''_id'', JStr i),
                        (''date'', JStr (toDateString rt (Time t)))]\<rparr>)
     \<and> findById (updateFirst i \<lparr>e_id = fresh, description = b_description b,
                                 duration = b_duration b, date = Some t\<rparr> db) i =
         Some (u\<lparr>exercises := exercises u @
                   [\<lparr>e_id = fresh, description = b_description b, duration = b_duration b,
                     date = Some t\<rparr>],
                 count := count u + 1\<rparr>)"
proof -
  have ex: "newExercise rt now fresh b =
      \<lparr>e_id = fresh, description = b_description b, duration = b_duration b, date = Some t\<rparr>"
    using assms(2) by (auto simp: newExercise_def ifTruthy_def castDate_def)
  then have "date (newExercise rt now fresh b) = Some t"
    by simp
  from add_dated [OF assms(1) this] findById_updateFirst [OF assms(1)] findById_id [OF assms(1)]
  show ?thesis
    by (simp add: ex pushAndInc_def)
qed

theorem add_exercise_response_witness:
  "addExerciseHandler utcRuntime 1705312800000 ''e4'' ''u1''
      \<lparr>b_description = ''walk'', b_duration = 10, b_date = None\<rparr> sampleDb =
     ([sampleUser\<lparr>exercises := sampleExercises @
                      [\<lparr>e_id = ''e4'', description = ''walk'', duration = 10,
                        date = Some 1705312800000\<rparr>],
                   count := 4\<rparr>],
      Inr \<lparr>code = 201,
           json = JObj [(''username'', JStr ''alice''),
                        (''description'', JStr ''walk''),
                        (''duration'', JNum 10),
                        (''_id'', JStr ''u1''),
                        (''date'', JStr ''Mon Jan 15 2024'')]\<rparr>)
   \<and> addExerciseHandler utcRuntime 1705312800000 ''e4'' ''u1''
      \<lparr>b_description = ''walk'', b_duration = 10, b_date = Some ''2024-01-01''\<rparr> sampleDb =
     ([sampleUser\<lparr>exercises := sampleExercises @
                      [\<lparr>e_id = ''e4'', description = ''walk'', duration = 10,
                        date = Some 1704067200000\<rparr>],
                   count := 4\<rparr>],
      Inr \<lparr>code = 201,
           json = JObj [(''username'', JStr ''alice''),
                        (''description'', JStr ''walk''),
                        (''duration'', JNum 10),
                        (''_id'', JStr ''u1''),
                        (''date'', JStr ''Mon Jan 01 2024'')]\<rparr>)"
  using add_exercise_response [of sampleDb "''u1''" sampleUser
      "\<lparr>b_description = ''walk'', b_duration = 10, b_date = None\<rparr>"
      1705312800000 1705312800000 utcRuntime "''e4''"]
    add_exercise_response [of sampleDb "''u1''" sampleUser
      "\<lparr>b_description = ''walk'', b_duration = 10, b_date = Some ''2024-01-01''\<rparr>"
      1704067200000 1705312800000 utcRuntime "''e4''"]
    sample_found
  by (simp add: utc_fields utc_read_iso utc_write_day sampleDb_def sampleUser_def pushAndInc_def)

subsection \<open>The error middleware\<close>

text \<open>
  Claim C7. For an error given to the error middleware: with validation
  failures on it (at least one, as a validation error has) the answer is
  400 and the message of the first; otherwise the status is the attached
  one, or 500 when none is attached, and the body is the message, or
  ``Internal Server Error'' when there is none; the body is plain text in
  both cases. A status or message counts as attached when \<open>||\<close> takes it:
  the status is not 0 and the message is not the empty string.
\<close>

theorem errorMiddleware_meets_spec:
  assumes "errors err \<noteq> Some []" and "status err \<noteq> Some 0" and "message err \<noteq> Some []"
  shows "errorMiddleware rt err = Inr (specErrorResponse err)
         \<and> ctype (specErrorResponse err) = ''txt''"
  using assms
  by (auto simp: errorMiddleware_def specErrorResponse_def split: option.splits list.splits)

theorem errorMiddleware_meets_spec_witness:
  "errorMiddleware utcRuntime (requiredError utcRuntime ''name'')
     = Inr \<lparr>errCode = 400, ctype = ''txt'', errMessage = ''Path `name` is required.''\<rparr>
   \<and> errorMiddleware utcRuntime
         \<lparr>cls = PlainObject, errors = None, status = Some 404, message = Some ''not found''\<rparr>
     = Inr \<lparr>errCode = 404, ctype = ''txt'', errMessage = ''not found''\<rparr>
   \<and> errorMiddleware utcRuntime
         \<lparr>cls = PlainObject, errors = None, status = None, message = None\<rparr>
     = Inr \<lparr>errCode = 500, ctype = ''txt'', errMessage = ''Internal Server Error''\<rparr>"
  using errorMiddleware_meets_spec [of "requiredError utcRuntime ''name''" utcRuntime]
    errorMiddleware_meets_spec
      [of "\<lparr>cls = PlainObject, errors = None, status = Some 404, message = Some ''not found''\<rparr>"
          utcRuntime]
    errorMiddleware_meets_spec
      [of "\<lparr>cls = PlainObject, errors = None, status = None, message = None\<rparr>" utcRuntime]
  by (simp add: specErrorResponse_def requiredError_def utc_fields)

subsection \<open>Listing users\<close>

text \<open>
  Claim C8. The list of users is answered with 200 and an array holding,
  for each stored user in storage order, the object with exactly the keys
  \<open>_id\<close> and username. After creating two users with different names
  (and different generated identifiers) in an empty collection, the array
  has exactly the two entries.
\<close>

theorem list_users:
  fixes db :: "'n db"
  shows "getAllUsersHandlers db =
     Inr \<lparr>code = 200,
          json = JArr (map (\<lambda>u. JObj [(''_id'', JStr (u_id u)), (''username'', JStr (name u))]) db)\<rparr>
   \<and> (a \<noteq> [] \<and> b \<noteq> [] \<and> a \<noteq> b \<and> i \<noteq> j \<longrightarrow>
        getAllUsersHandlers
          (fst (createUserHandler rt j b (fst (createUserHandler rt i a ([] :: 'n db)))))
        = Inr \<lparr>code = 200,
               json = JArr [JObj [(''_id'', JStr i), (''username'', JStr a)],
                            JObj [(''_id'', JStr j), (''username'', JStr b)]]\<rparr>)"
  by (auto simp: getAllUsersHandlers_def json_object_def comp_def createUserHandler_def
      findOne_def findById_def save_def newUser_def)

theorem list_users_witness:
  "getAllUsersHandlers
     (fst (createUserHandler utcRuntime ''b2'' ''bob''
        (fst (createUserHandler utcRuntime ''a1'' ''alice'' ([] :: int db)))))
   = Inr \<lparr>code = 200,
          json = JArr [JObj [(''_id'', JStr ''a1''), (''username'', JStr ''alice'')],
                       JObj [(''_id'', JStr ''b2''), (''username'', JStr ''bob'')]]\<rparr>"
  using list_users [of "[] :: int db" "''alice''" "''bob''" "''a1''" "''b2''" utcRuntime]
  by simp

subsection \<open>The exercise log\<close>

lemma limitParam_limitOf: "limitParam (qlimit q) = limitOf q"
  by (simp add: limitParam_def limitOf_def ifTruthy_def split: option.splits)

lemma formatLog_dated:
  "\<forall>ex \<in> set exs. date ex \<noteq> None \<Longrightarrow> formatLog rt exs = Inr (map (dayEntry rt) exs)"
  by (induction exs) (auto simp: entryOf_def)

lemma formatLog_dateless:
  "\<exists>ex \<in> set exs. date ex = None \<Longrightarrow> formatLog rt exs = Inl (undefinedProperty rt ''toDateString'')"
proof (induction exs)
  case Nil
  then show ?case by simp
next
  case (Cons a exs)
  show ?case
  proof (cases "date a")
    case None
    then show ?thesis by (simp add: entryOf_def)
  next
    case (Some t)
    with Cons.prems have "\<exists>ex \<in> set exs. date ex = None" by auto
    with Cons.IH Some show ?thesis by (simp add: entryOf_def)
  qed
qed

lemma filterLog_filter: "filterLog rt f t log = filter (keepEntry rt f t) log"
  by (simp add: filterLog_def keepEntry_def)

lemma keep_is_day:
  "keepEntry rt (dateParam rt s1) (dateParam rt s2) (dayEntry rt ex)
   = dayWithin rt (boundOf rt s1) (boundOf rt s2) ex"
  by (cases "newDate rt (toDateString rt (Time (the (date ex))))")
     (auto simp: keepEntry_def dayWithin_def dateParam_def boundOf_def ifTruthy_def
        split: option.splits jsdate.splits)

lemma filterLog_kept:
  "filterLog rt (dateParam rt (qfrom q)) (dateParam rt (qto q)) (map (dayEntry rt) exs)
   = map (dayEntry rt) (keptExercises rt q exs)"
  by (simp add: filterLog_filter filter_map comp_def keep_is_day keptExercises_def)

lemma limitLog_map:
  "limitLog rt limit (map f xs) =
     (case limit of
        Some (Num k) \<Rightarrow>
          if k \<noteq> 0 \<and> k < int (length xs)
          then (if k < 0 then Inl (invalidLength rt) else Inr (map f (take (nat k) xs)))
          else Inr (map f xs)
      | _ \<Rightarrow> Inr (map f xs))"
  by (auto simp: limitLog_def truthy_num_def num_lt_nat_def take_map
      split: option.splits jsnum.splits)

lemma logResponse_entries:
  "logResponse u (Some (map (dayEntry rt) exs)) = logAnswer rt u exs"
  by (simp add: logResponse_def json_object_def entryJson_def comp_def)

lemma log_handler:
  assumes "findById db i = Some u" and "exercises u \<noteq> []"
    and "\<forall>ex \<in> set (exercises u). date ex \<noteq> None"
  shows "getUserHandler rt q i db =
     (case limitOf q of
        Some (Num k) \<Rightarrow>
          if k \<noteq> 0 \<and> k < int (length (keptExercises rt q (exercises u)))
          then (if k < 0 then Inl (invalidLength rt)
                else Inr (logAnswer rt u (take (nat k) (keptExercises rt q (exercises u)))))
          else Inr (logAnswer rt u (keptExercises rt q (exercises u)))
      | _ \<Rightarrow> Inr (logAnswer rt u (keptExercises rt q (exercises u))))"
  using assms(1,2)
  by (simp add: getUserHandler_def Let_def formatLog_dated [OF assms(3)] filterLog_kept
      limitLog_map limitParam_limitOf logResponse_entries [symmetric]
      split: option.splits jsnum.splits)

text \<open>
  Claim C9. For a stored user with no exercise, whatever the query, the
  answer is 200 with the identifier, the name and a count of 0, and the
  object has no log key: the log is built only inside the branch for a
  non-empty exercise list.
\<close>

theorem empty_log_omitted:
  assumes "findById db i = Some u" and "exercises u = []"
  shows "getUserHandler rt q i db =
     Inr \<lparr>code = 200,
          json = JObj [(''_id'', JStr (u_id u)), (''username'', JStr (name u)),
                       (''count'', JNat 0)]\<rparr>
     \<and> field ''log'' (json (logResponse u None)) = None
     \<and> getUserHandler rt q i db = Inr (logResponse u None)"
  using assms
  by (simp add: getUserHandler_def logResponse_def json_object_def field_def)

theorem empty_log_omitted_witness:
  "getUserHandler utcRuntime \<lparr>qfrom = Some ''2024-01-10'', qto = None, qlimit = Some ''-1''\<rparr> ''u1''
     [newUser ''u1'' ''alice'' :: int user]
   = Inr \<lparr>code = 200,
          json = JObj [(''_id'', JStr ''u1''), (''username'', JStr ''alice''), (''count'', JNat 0)]\<rparr>"
  using empty_log_omitted [of "[newUser ''u1'' ''alice'' :: int user]" "''u1''"
      "newUser ''u1'' ''alice''" utcRuntime
      "\<lparr>qfrom = Some ''2024-01-10'', qto = None, qlimit = Some ''-1''\<rparr>"]
  by (simp add: findById_def newUser_def)

lemma field_count_logResponse:
  "field ''count'' (json (logResponse u l)) = Some (JNat (length (exercises u)))"
  by (simp add: field_def logResponse_def json_object_def)

lemma get_answer_shape:
  assumes "findById db i = Some u" and "getUserHandler rt q i db = Inr r"
  shows "\<exists>l. r = logResponse u l"
  using assms
  by (auto simp: getUserHandler_def split: if_splits sum.splits)

text \<open>
  Claim C5. For a stored user and every query, an answer of the handler
  is 200 and its count is the number of exercises stored for the user,
  whatever the filter and the limit leave in the log. The handler does
  answer for every \<open>from\<close> and \<open>to\<close> when the limit is absent, not a number,
  zero or positive and every stored exercise has a date. (A negative
  limit makes the assignment to \<open>log.length\<close> throw, an exercise stored
  without a date makes \<open>ex.date.toDateString()\<close> throw, and no answer with a
  count is sent.)
\<close>

theorem log_count_is_total:
  assumes "findById db i = Some u"
  shows "(\<forall>r. getUserHandler rt q i db = Inr r \<longrightarrow>
            code r = 200 \<and> field ''count'' (json r) = Some (JNat (length (exercises u))))
         \<and> ((\<forall>k. limitOf q = Some (Num k) \<longrightarrow> 0 \<le> k)
              \<and> (\<forall>ex \<in> set (exercises u). date ex \<noteq> None) \<longrightarrow>
              (\<exists>r. getUserHandler rt q i db = Inr r))"
proof (rule conjI)
  show "\<forall>r. getUserHandler rt q i db = Inr r \<longrightarrow>
            code r = 200 \<and> field ''count'' (json r) = Some (JNat (length (exercises u)))"
  proof (rule allI, rule impI)
    fix r
    assume "getUserHandler rt q i db = Inr r"
    with assms obtain l where "r = logResponse u l"
      using get_answer_shape by blast
    then show "code r = 200 \<and> field ''count'' (json r) = Some (JNat (length (exercises u)))"
      by (simp add: field_count_logResponse) (simp add: logResponse_def)
  qed
next
  show "(\<forall>k. limitOf q = Some (Num k) \<longrightarrow> 0 \<le> k)
          \<and> (\<forall>ex \<in> set (exercises u). date ex \<noteq> None) \<longrightarrow>
        (\<exists>r. getUserHandler rt q i db = Inr r)"
  proof (rule impI)
    assume a: "(\<forall>k. limitOf q = Some (Num k) \<longrightarrow> 0 \<le> k)
                \<and> (\<forall>ex \<in> set (exercises u). date ex \<noteq> None)"
    show "\<exists>r. getUserHandler rt q i db = Inr r"
    proof (cases "exercises u = []")
      case True
      with assms show ?thesis by (simp add: getUserHandler_def)
    next
      case False
      with assms a log_handler [of db i u rt q] show ?thesis
        by (auto split: option.splits jsnum.splits)
    qed
  qed
qed

lemma sample_limits:
  "limitOf \<lparr>qfrom = a, qto = b, qlimit = None\<rparr> = None"
  "limitOf \<lparr>qfrom = a, qto = b, qlimit = Some ''0''\<rparr> = Some (Num 0)"
  "limitOf \<lparr>qfrom = a, qto = b, qlimit = Some ''1''\<rparr> = Some (Num 1)"
  "limitOf \<lparr>qfrom = a, qto = b, qlimit = Some ''abc''\<rparr> = Some NaN"
  "limitOf \<lparr>qfrom = a, qto = b, qlimit = Some ''-1''\<rparr> = Some (Num (- 1))"
  by (simp_all add: limitOf_def parseInt_samples)

lemma sample_bounds:
  "boundOf utcRuntime None = None"
  "boundOf utcRuntime (Some ''2024-01-10'') = Some 1704844800000"
  "boundOf utcRuntime (Some ''2024-01-31'') = Some 1706659200000"
  "boundOf utcRuntime (Some ''2024-01-15'') = Some 1705276800000"
  "boundOf utcRuntime (Some ''garbage'') = None"
  "presentBound utcRuntime None = None"
  "presentBound utcRuntime (Some ''2024-01-15'') = Some (Time 1705276800000)"
  "presentBound utcRuntime (Some ''garbage'') = Some InvalidDate"
  by (simp_all add: boundOf_def presentBound_def utc_fields utc_read_iso)

lemma sample_kept:
  "keptExercises utcRuntime \<lparr>qfrom = None, qto = None, qlimit = l\<rparr> sampleExercises = sampleExercises"
  "keptExercises utcRuntime \<lparr>qfrom = Some ''garbage'', qto = None, qlimit = l\<rparr> sampleExercises
     = sampleExercises"
  "keptExercises utcRuntime \<lparr>qfrom = Some ''2024-01-10'', qto = Some ''2024-01-31'', qlimit = l\<rparr>
     sampleExercises
     = [\<lparr>e_id = ''e2'', description = ''swim'', duration = 45, date = Some 1705276800000\<rparr>]"
  "keptExercises utcRuntime \<lparr>qfrom = None, qto = Some ''2024-01-15'', qlimit = l\<rparr> [lateExercise]
     = [lateExercise]"
  by (simp_all add: keptExercises_def sample_bounds dayWithin_def sampleExercises_def lateExercise_def
      utc_fields utc_write_day utc_read_day)

lemma sample_entries:
  "map (logEntry utcRuntime) sampleExercises =
     [JObj [(''description'', JStr ''run''), (''duration'', JNum 30),
            (''date'', JStr ''Mon Jan 01 2024'')],
      JObj [(''description'', JStr ''swim''), (''duration'', JNum 45),
            (''date'', JStr ''Mon Jan 15 2024'')],
      JObj [(''description'', JStr ''row''), (''duration'', JNum 20),
            (''date'', JStr ''Thu Feb 01 2024'')]]"
  by (simp add: sampleExercises_def utc_fields utc_write_day)

theorem log_count_is_total_witness:
  "getUserHandler utcRuntime
      \<lparr>qfrom = Some ''2024-01-10'', qto = Some ''2024-01-31'', qlimit = None\<rparr> ''u1'' sampleDb
   = Inr \<lparr>code = 200,
          json = JObj [(''_id'', JStr ''u1''), (''username'', JStr ''alice''), (''count'', JNat 3),
                       (''log'', JArr [JObj [(''description'', JStr ''swim''),
                                             (''duration'', JNum 45),
                                             (''date'', JStr ''Mon Jan 15 2024'')]])]\<rparr>
   \<and> field ''count'' (JObj [(''_id'', JStr ''u1''), (''username'', JStr ''alice''), (''count'', JNat 3),
                       (''log'', JArr [JObj [(''description'', JStr ''swim''),
                                             (''duration'', JNum (45 :: int)),
                                             (''date'', JStr ''Mon Jan 15 2024'')]])])
       = Some (JNat (length (exercises sampleUser)))"
proof -
  have "(\<forall>k. limitOf \<lparr>qfrom = Some ''2024-01-10'', qto = Some ''2024-01-31'', qlimit = None\<rparr>
            = Some (Num k) \<longrightarrow> 0 \<le> k)
        \<and> (\<forall>ex \<in> set (exercises sampleUser). date ex \<noteq> None)"
    using sample_dated by (simp add: sample_limits)
  with log_count_is_total [OF sample_found, of utcRuntime
      "\<lparr>qfrom = Some ''2024-01-10'', qto = Some ''2024-01-31'', qlimit = None\<rparr>"]
  obtain r where r: "getUserHandler utcRuntime
      \<lparr>qfrom = Some ''2024-01-10'', qto = Some ''2024-01-31'', qlimit = None\<rparr> ''u1'' sampleDb = Inr r"
    and c: "field ''count'' (json r) = Some (JNat (length (exercises sampleUser)))"
    by blast
  have "getUserHandler utcRuntime
      \<lparr>qfrom = Some ''2024-01-10'', qto = Some ''2024-01-31'', qlimit = None\<rparr> ''u1'' sampleDb
   = Inr \<lparr>code = 200,
          json = JObj [(''_id'', JStr ''u1''), (''username'', JStr ''alice''), (''count'', JNat 3),
                       (''log'', JArr [JObj [(''description'', JStr ''swim''),
                                             (''duration'', JNum 45),
                                             (''date'', JStr ''Mon Jan 15 2024'')]])]\<rparr>"
    using log_handler [OF sample_found _ sample_dated, of utcRuntime
      "\<lparr>qfrom = Some ''2024-01-10'', qto = Some ''2024-01-31'', qlimit = None\<rparr>"]
    by (simp add: sample_user sample_nonempty sample_limits sample_kept utc_fields utc_write_day)
  with r c show ?thesis by (auto simp: sample_user)
qed

subsection \<open>Truncation of the log\<close>

text \<open>
  Claim C10. For a stored user with at least one exercise, every stored
  exercise having a date: when the limit parameter is given and
  \<open>parseInt\<close> reads it as 0 or as NaN, the answer is 200 with the whole
  filtered log; whenever the handler does anything else than answer with
  the whole filtered log, the limit read is a number other than 0 that is
  smaller than the length of the filtered log; and for a positive such
  limit the answer carries the first \<open>limit\<close> entries of the filtered log.
\<close>

theorem falsy_limit_keeps_log:
  assumes "findById db i = Some u" and "exercises u \<noteq> []"
    and "\<forall>ex \<in> set (exercises u). date ex \<noteq> None"
  shows "(qlimit q = Some s \<and> s \<noteq> [] \<and> (parseInt s = NaN \<or> parseInt s = Num 0) \<longrightarrow>
            getUserHandler rt q i db = Inr (logAnswer rt u (keptExercises rt q (exercises u))))
         \<and> (getUserHandler rt q i db \<noteq> Inr (logAnswer rt u (keptExercises rt q (exercises u))) \<longrightarrow>
             (\<exists>k. limitOf q = Some (Num k) \<and> k \<noteq> 0
                  \<and> k < int (length (keptExercises rt q (exercises u)))))
         \<and> (limitOf q = Some (Num k) \<and> 0 < k
              \<and> k < int (length (keptExercises rt q (exercises u))) \<longrightarrow>
             getUserHandler rt q i db =
               Inr (logAnswer rt u (take (nat k) (keptExercises rt q (exercises u)))))"
proof (intro conjI)
  show "qlimit q = Some s \<and> s \<noteq> [] \<and> (parseInt s = NaN \<or> parseInt s = Num 0) \<longrightarrow>
            getUserHandler rt q i db = Inr (logAnswer rt u (keptExercises rt q (exercises u)))"
  proof (rule impI)
    assume "qlimit q = Some s \<and> s \<noteq> [] \<and> (parseInt s = NaN \<or> parseInt s = Num 0)"
    then have "limitOf q = Some NaN \<or> limitOf q = Some (Num 0)"
      by (auto simp: limitOf_def)
    then show "getUserHandler rt q i db = Inr (logAnswer rt u (keptExercises rt q (exercises u)))"
      using log_handler [OF assms, of rt q] by auto
  qed
next
  show "getUserHandler rt q i db \<noteq> Inr (logAnswer rt u (keptExercises rt q (exercises u))) \<longrightarrow>
             (\<exists>k. limitOf q = Some (Num k) \<and> k \<noteq> 0
                  \<and> k < int (length (keptExercises rt q (exercises u))))"
    using log_handler [OF assms, of rt q]
    by (auto split: option.splits jsnum.splits if_splits)
next
  show "limitOf q = Some (Num k) \<and> 0 < k
              \<and> k < int (length (keptExercises rt q (exercises u))) \<longrightarrow>
             getUserHandler rt q i db =
               Inr (logAnswer rt u (take (nat k) (keptExercises rt q (exercises u))))"
    using log_handler [OF assms, of rt q] by auto
qed

theorem falsy_limit_keeps_log_witness:
  "getUserHandler utcRuntime \<lparr>qfrom = None, qto = None, qlimit = Some ''0''\<rparr> ''u1'' sampleDb
     = Inr \<lparr>code = 200,
            json = JObj [(''_id'', JStr ''u1''), (''username'', JStr ''alice''), (''count'', JNat 3),
                         (''log'', JArr
                            [JObj [(''description'', JStr ''run''), (''duration'', JNum 30),
                                   (''date'', JStr ''Mon Jan 01 2024'')],
                             JObj [(''description'', JStr ''swim''), (''duration'', JNum 45),
                                   (''date'', JStr ''Mon Jan 15 2024'')],
                             JObj [(''description'', JStr ''row''), (''duration'', JNum 20),
                                   (''date'', JStr ''Thu Feb 01 2024'')]])]\<rparr>
   \<and> getUserHandler utcRuntime \<lparr>qfrom = None, qto = None, qlimit = Some ''abc''\<rparr> ''u1'' sampleDb
     = Inr \<lparr>code = 200,
            json = JObj [(''_id'', JStr ''u1''), (''username'', JStr ''alice''), (''count'', JNat 3),
                         (''log'', JArr
                            [JObj [(''description'', JStr ''run''), (''duration'', JNum 30),
                                   (''date'', JStr ''Mon Jan 01 2024'')],
                             JObj [(''description'', JStr ''swim''), (''duration'', JNum 45),
                                   (''date'', JStr ''Mon Jan 15 2024'')],
                             JObj [(''description'', JStr ''row''), (''duration'', JNum 20),
                                   (''date'', JStr ''Thu Feb 01 2024'')]])]\<rparr>"
  using falsy_limit_keeps_log [OF sample_found _ sample_dated,
      of "\<lparr>qfrom = None, qto = None, qlimit = Some ''0''\<rparr>" "''0''" utcRuntime]
    falsy_limit_keeps_log [OF sample_found _ sample_dated,
      of "\<lparr>qfrom = None, qto = None, qlimit = Some ''abc''\<rparr>" "''abc''" utcRuntime]
  by (simp add: sample_user sample_nonempty parseInt_samples sample_kept sample_entries)

subsection \<open>The log against the specification\<close>

lemma sample_spec:
  "specLog utcRuntime \<lparr>qfrom = None, qto = None, qlimit = Some ''0''\<rparr> sampleExercises = []"
  "specLog utcRuntime \<lparr>qfrom = None, qto = Some ''2024-01-15'', qlimit = None\<rparr> [lateExercise] = []"
  "specLog utcRuntime \<lparr>qfrom = Some ''garbage'', qto = None, qlimit = None\<rparr> sampleExercises = []"
  by (simp_all add: specLog_def truncated_def sample_limits sample_bounds dateWithin_def
      sampleExercises_def lateExercise_def)

lemma sample_designed:
  "designedLog utcRuntime \<lparr>qfrom = Some ''2024-01-10'', qto = Some ''2024-01-31'', qlimit = None\<rparr>
     sampleExercises
   = [\<lparr>e_id = ''e2'', description = ''swim'', duration = 45, date = Some 1705276800000\<rparr>]"
  "designedLog utcRuntime \<lparr>qfrom = None, qto = None, qlimit = Some ''1''\<rparr> sampleExercises
   = [\<lparr>e_id = ''e1'', description = ''run'', duration = 30, date = Some 1704067200000\<rparr>]"
  by (simp_all add: designedLog_def limited_def sample_limits sample_kept)
     (simp add: sampleExercises_def)

text \<open>
  Claim C4, as amended. For a stored user with at least one exercise,
  every stored exercise having a date, and a limit that is absent, not a
  number, zero or positive: the answer is 200 and its log is the stored
  exercises, those kept whose day lies within the inclusive bounds, then
  the first \<open>limit\<close> of them when the limit is a number other than 0 and
  smaller than the number kept, each written as description, duration and
  day string, in insertion order. The day of an exercise is the date the
  engine reads back from its day string, a bound counts when it is present
  and a valid date, and a day string that does not read back passes.
\<close>

theorem log_meets_spec:
  assumes "findById db i = Some u" and "exercises u \<noteq> []"
    and "\<forall>ex \<in> set (exercises u). date ex \<noteq> None"
    and "\<forall>k. limitOf q = Some (Num k) \<longrightarrow> 0 \<le> k"
  shows "getUserHandler rt q i db = Inr (logAnswer rt u (designedLog rt q (exercises u)))"
  using log_handler [OF assms(1,2,3), of rt q] assms(4)
  by (auto simp: designedLog_def limited_def split: option.splits jsnum.splits)

text \<open>The two queries of the specification's example.\<close>

theorem log_meets_spec_witness:
  "getUserHandler utcRuntime
      \<lparr>qfrom = Some ''2024-01-10'', qto = Some ''2024-01-31'', qlimit = None\<rparr> ''u1'' sampleDb
     = Inr \<lparr>code = 200,
            json = JObj [(''_id'', JStr ''u1''), (''username'', JStr ''alice''), (''count'', JNat 3),
                         (''log'', JArr
                            [JObj [(''description'', JStr ''swim''), (''duration'', JNum 45),
                                   (''date'', JStr ''Mon Jan 15 2024'')]])]\<rparr>
   \<and> getUserHandler utcRuntime \<lparr>qfrom = None, qto = None, qlimit = Some ''1''\<rparr> ''u1'' sampleDb
     = Inr \<lparr>code = 200,
            json = JObj [(''_id'', JStr ''u1''), (''username'', JStr ''alice''), (''count'', JNat 3),
                         (''log'', JArr
                            [JObj [(''description'', JStr ''run''), (''duration'', JNum 30),
                                   (''date'', JStr ''Mon Jan 01 2024'')]])]\<rparr>"
  using log_meets_spec [OF sample_found _ sample_dated, of
      "\<lparr>qfrom = Some ''2024-01-10'', qto = Some ''2024-01-31'', qlimit = None\<rparr>" utcRuntime]
    log_meets_spec [OF sample_found _ sample_dated, of
      "\<lparr>qfrom = None, qto = None, qlimit = Some ''1''\<rparr>" utcRuntime]
  by (simp add: sample_user sample_nonempty sample_limits sample_designed utc_fields utc_write_day)

text \<open>
  Where the claim as written fails, on concrete requests. With \<open>limit=0\<close>
  the claim's log is empty and the handler answers all three entries. An
  exercise dated 10:00 on 2024-01-15 is after the bound \<open>to=2024-01-15\<close>
  (midnight), so the claim drops it, and the handler, comparing the day,
  keeps it. With \<open>from=garbage\<close> the bound is present, no date lies within
  it, and the handler answers all three entries. With \<open>limit=-1\<close> the
  handler forwards a \<open>RangeError\<close>. For a user with no exercise the answer
  has no log key. After an addition whose date was not one, the handler
  forwards a \<open>TypeError\<close>.
\<close>

theorem log_counterexample:
  "getUserHandler utcRuntime \<lparr>qfrom = None, qto = None, qlimit = Some ''0''\<rparr> ''u1'' sampleDb
     = Inr \<lparr>code = 200,
            json = JObj [(''_id'', JStr ''u1''), (''username'', JStr ''alice''), (''count'', JNat 3),
                         (''log'', JArr
                            [JObj [(''description'', JStr ''run''), (''duration'', JNum 30),
                                   (''date'', JStr ''Mon Jan 01 2024'')],
                             JObj [(''description'', JStr ''swim''), (''duration'', JNum 45),
                                   (''date'', JStr ''Mon Jan 15 2024'')],
                             JObj [(''description'', JStr ''row''), (''duration'', JNum 20),
                                   (''date'', JStr ''Thu Feb 01 2024'')]])]\<rparr>
   \<and> specLog utcRuntime \<lparr>qfrom = None, qto = None, qlimit = Some ''0''\<rparr> (exercises sampleUser) = []
   \<and> getUserHandler utcRuntime \<lparr>qfrom = None, qto = Some ''2024-01-15'', qlimit = None\<rparr> ''u2''
        [lateUser]
     = Inr \<lparr>code = 200,
            json = JObj [(''_id'', JStr ''u2''), (''username'', JStr ''bob''), (''count'', JNat 1),
                         (''log'', JArr
                            [JObj [(''description'', JStr ''walk''), (''duration'', JNum 10),
                                   (''date'', JStr ''Mon Jan 15 2024'')]])]\<rparr>
   \<and> specLog utcRuntime \<lparr>qfrom = None, qto = Some ''2024-01-15'', qlimit = None\<rparr>
        (exercises lateUser) = []
   \<and> getUserHandler utcRuntime \<lparr>qfrom = Some ''garbage'', qto = None, qlimit = None\<rparr> ''u1'' sampleDb
     = Inr \<lparr>code = 200,
            json = JObj [(''_id'', JStr ''u1''), (''username'', JStr ''alice''), (''count'', JNat 3),
                         (''log'', JArr
                            [JObj [(''description'', JStr ''run''), (''duration'', JNum 30),
                                   (''date'', JStr ''Mon Jan 01 2024'')],
                             JObj [(''description'', JStr ''swim''), (''duration'', JNum 45),
                                   (''date'', JStr ''Mon Jan 15 2024'')],
                             JObj [(''description'', JStr ''row''), (''duration'', JNum 20),
                                   (''date'', JStr ''Thu Feb 01 2024'')]])]\<rparr>
   \<and> specLog utcRuntime \<lparr>qfrom = Some ''garbage'', qto = None, qlimit = None\<rparr>
        (exercises sampleUser) = []
   \<and> getUserHandler utcRuntime \<lparr>qfrom = None, qto = None, qlimit = Some ''-1''\<rparr> ''u1'' sampleDb
     = Inl (thrown RangeError ''Invalid array length'')
   \<and> getUserHandler utcRuntime noQuery ''u3'' [newUser ''u3'' ''carol'' :: int user]
     = Inr \<lparr>code = 200,
            json = JObj [(''_id'', JStr ''u3''), (''username'', JStr ''carol''), (''count'', JNat 0)]\<rparr>
   \<and> getUserHandler utcRuntime noQuery ''u1''
        (fst (addExerciseHandler utcRuntime 1706800000003 ''e4'' ''u1'' garbageBody sampleDb))
     = Inl (thrown TypeError ''Cannot read property 'toDateString' of undefined'')"
proof -
  have late_found: "findById [lateUser] ''u2'' = Some lateUser"
    by (simp add: findById_def lateUser_def)
  have late: "u_id lateUser = ''u2''" "name lateUser = ''bob''" "exercises lateUser = [lateExercise]"
    "date lateExercise \<noteq> None" "description lateExercise = ''walk''" "duration lateExercise = 10"
    "date lateExercise = Some 1705312800000"
    by (simp_all add: lateUser_def lateExercise_def)
  have a: "getUserHandler utcRuntime \<lparr>qfrom = None, qto = None, qlimit = Some ''0''\<rparr> ''u1'' sampleDb
     = Inr \<lparr>code = 200,
            json = JObj [(''_id'', JStr ''u1''), (''username'', JStr ''alice''), (''count'', JNat 3),
                         (''log'', JArr
                            [JObj [(''description'', JStr ''run''), (''duration'', JNum 30),
                                   (''date'', JStr ''Mon Jan 01 2024'')],
                             JObj [(''description'', JStr ''swim''), (''duration'', JNum 45),
                                   (''date'', JStr ''Mon Jan 15 2024'')],
                             JObj [(''description'', JStr ''row''), (''duration'', JNum 20),
                                   (''date'', JStr ''Thu Feb 01 2024'')]])]\<rparr>"
    using log_handler [OF sample_found _ sample_dated, of utcRuntime
        "\<lparr>qfrom = None, qto = None, qlimit = Some ''0''\<rparr>"]
    by (simp add: sample_user sample_nonempty sample_limits sample_kept sample_entries)
  have b: "getUserHandler utcRuntime \<lparr>qfrom = None, qto = Some ''2024-01-15'', qlimit = None\<rparr> ''u2''
        [lateUser] = Inr \<lparr>code = 200,
            json = JObj [(''_id'', JStr ''u2''), (''username'', JStr ''bob''), (''count'', JNat 1),
                         (''log'', JArr
                            [JObj [(''description'', JStr ''walk''), (''duration'', JNum 10),
                                   (''date'', JStr ''Mon Jan 15 2024'')]])]\<rparr>"
    using log_handler [OF late_found, of utcRuntime
        "\<lparr>qfrom = None, qto = Some ''2024-01-15'', qlimit = None\<rparr>"]
    by (simp add: late sample_limits sample_kept utc_fields utc_write_day)
  have c: "getUserHandler utcRuntime \<lparr>qfrom = Some ''garbage'', qto = None, qlimit = None\<rparr> ''u1'' sampleDb
     = Inr \<lparr>code = 200,
            json = JObj [(''_id'', JStr ''u1''), (''username'', JStr ''alice''), (''count'', JNat 3),
                         (''log'', JArr
                            [JObj [(''description'', JStr ''run''), (''duration'', JNum 30),
                                   (''date'', JStr ''Mon Jan 01 2024'')],
                             JObj [(''description'', JStr ''swim''), (''duration'', JNum 45),
                                   (''date'', JStr ''Mon Jan 15 2024'')],
                             JObj [(''description'', JStr ''row''), (''duration'', JNum 20),
                                   (''date'', JStr ''Thu Feb 01 2024'')]])]\<rparr>"
    using log_handler [OF sample_found _ sample_dated, of utcRuntime
        "\<lparr>qfrom = Some ''garbage'', qto = None, qlimit = None\<rparr>"]
    by (simp add: sample_user sample_nonempty sample_limits sample_kept sample_entries)
  have d: "getUserHandler utcRuntime \<lparr>qfrom = None, qto = None, qlimit = Some ''-1''\<rparr> ''u1'' sampleDb
     = Inl (thrown RangeError ''Invalid array length'')"
    using log_handler [OF sample_found _ sample_dated, of utcRuntime
        "\<lparr>qfrom = None, qto = None, qlimit = Some ''-1''\<rparr>"]
    by (simp add: sample_user sample_nonempty sample_limits sample_kept invalidLength_def utc_fields)
  have e: "getUserHandler utcRuntime noQuery ''u3'' [newUser ''u3'' ''carol'' :: int user]
     = Inr \<lparr>code = 200,
            json = JObj [(''_id'', JStr ''u3''), (''username'', JStr ''carol''), (''count'', JNat 0)]\<rparr>"
    by (simp add: getUserHandler_def findById_def newUser_def logResponse_def json_object_def)
  have f: "getUserHandler utcRuntime noQuery ''u1''
        (fst (addExerciseHandler utcRuntime 1706800000003 ''e4'' ''u1'' garbageBody sampleDb))
     = Inl (thrown TypeError ''Cannot read property 'toDateString' of undefined'')"
    by (simp add: add_db garbage_exercise sampleDb_def sampleUser_def pushAndInc_def
        getUserHandler_def findById_def formatLog_dateless undefinedProperty_def utc_fields)
  from a b c d e f show ?thesis
    by (simp add: sample_user sample_spec late)
qed

end
